theory Spec2Isabelle
  imports Main "HOL-Library.Word"
begin

section \<open>Sorting the lists of a list column: the data model\<close>

text \<open>
  A shallow embedding of \<^verbatim>\<open>src/function/scalar/list/list_sort.cpp\<close>: the binding
  functions (\<^verbatim>\<open>GetNullOrder\<close>, \<^verbatim>\<open>ListNormalSortBind\<close>, \<^verbatim>\<open>ListReverseSortBind\<close>,
  \<^verbatim>\<open>ListSortBind\<close>), the constructor of \<^verbatim>\<open>ListSortBindData\<close>, and the executor
  \<^verbatim>\<open>ListSortFunction\<close> with \<^verbatim>\<open>SinkDataChunk\<close>.

  Exceptions are values: a \<^verbatim>\<open>throw InvalidInputException(msg)\<close> is
  \<open>Inl (InvalidInputException msg)\<close>, a failed \<^verbatim>\<open>D_ASSERT\<close> is \<open>Inl AssertionFailure\<close>.
  Sizes and indices of type \<^verbatim>\<open>idx_t\<close> (64 bits) are natural numbers; the two narrower
  integers of the executor, the \<^verbatim>\<open>uint16_t\<close> group index and the \<^verbatim>\<open>uint32_t\<close> payload
  counter, are machine words that wrap around.
\<close>

datatype exception = InvalidInputException string | AssertionFailure

text \<open>
  Modelled from the spec: the enumerations \<^verbatim>\<open>OrderType\<close> (ascending, descending) and
  \<^verbatim>\<open>OrderByNullType\<close> (nulls first, nulls last) are declared in a header outside the file. The file names \<^verbatim>\<open>ASCENDING\<close>, \<^verbatim>\<open>DESCENDING\<close>,
  \<^verbatim>\<open>ORDER_DEFAULT\<close>, \<^verbatim>\<open>NULLS_FIRST\<close> and \<^verbatim>\<open>NULLS_LAST\<close>; the remaining members are
  kept so that the conditional of \<^verbatim>\<open>ListReverseSortBind\<close> is modelled as it is written
  (every default that is not \<^verbatim>\<open>ASCENDING\<close> gives \<^verbatim>\<open>ASCENDING\<close>).
\<close>

datatype OrderType = OrderType_INVALID | OrderType_ORDER_DEFAULT | ASCENDING | DESCENDING

datatype OrderByNullType = OrderByNullType_INVALID | ORDER_DEFAULT | NULLS_FIRST | NULLS_LAST

datatype LogicalType = SQLNULL | USMALLINT | UINTEGER | INTEGER | VARCHAR | ANY | LIST LogicalType

text \<open>
  Modelled from the spec: the logical types are declared outside the file; a list type has
  an element type, and SQLNULL is the untyped-null marker.
  \<^verbatim>\<open>ListType::GetChildType\<close> is defined on list types only (the functions are registered
  for \<^verbatim>\<open>LIST(ANY)\<close> first arguments); on any other type its own assertion fails.
\<close>

fun GetChildType :: "LogicalType \<Rightarrow> LogicalType option" where
  "GetChildType (LIST t) = Some t"
| "GetChildType _ = None"

text \<open>
  Modelled from the spec: an argument expression at binding time, with the
  constant-expression evaluator that resolves the order and null-order literals. Of an \<^verbatim>\<open>Expression\<close> the binder reads its
  \<^verbatim>\<open>return_type\<close>, whether it \<^verbatim>\<open>IsFoldable()\<close>, and, when it is, the text
  \<^verbatim>\<open>ExpressionExecutor::EvaluateScalar(e).ToString()\<close> of its constant value.
\<close>

record Expression =
  return_type :: LogicalType
  IsFoldable :: bool
  EvaluateScalar :: string

datatype BoundReferenceExpression = BoundReferenceExpression LogicalType nat

record BoundOrderByNode =
  bon_type :: OrderType
  bon_null_order :: OrderByNullType
  bon_expression :: BoundReferenceExpression

record DBConfig =
  default_order_type :: OrderType
  default_null_order :: OrderByNullType

record ScalarFunction =
  bf_arguments :: "LogicalType list"
  bf_return_type :: LogicalType

subsection \<open>Upper-casing\<close>

text \<open>
  Modelled from the spec: the tokens are compared case-insensitively; the source upper-cases
  the text with \<^verbatim>\<open>::toupper\<close> of the C library. In the C locale the letters a..z (codes 97..122) lose
  bit 5, every other character is returned as it is.
\<close>

definition islower :: "char \<Rightarrow> bool" where
  "islower c = (97 \<le> (of_char c :: nat) \<and> (of_char c :: nat) \<le> 122)"

fun toupper :: "char \<Rightarrow> char" where
  "toupper (Char b0 b1 b2 b3 b4 b5 b6 b7) =
     (if islower (Char b0 b1 b2 b3 b4 b5 b6 b7) then Char b0 b1 b2 b3 b4 False b6 b7
      else Char b0 b1 b2 b3 b4 b5 b6 b7)"

text \<open>Case-insensitive comparison, as the specification words it.\<close>

definition iequals :: "string \<Rightarrow> string \<Rightarrow> bool" where
  "iequals a b = (map toupper a = map toupper b)"

subsection \<open>The sort engine's state and the bind data\<close>

text \<open>
  A row of the sort engine: the key columns (GroupIndex, a \<^verbatim>\<open>USMALLINT\<close>, and the element
  value, \<open>None\<close> for a NULL element) and the payload column (a \<^verbatim>\<open>UINTEGER\<close>).
\<close>

type_synonym 'a sort_row = "16 word \<times> 'a option \<times> 32 word"

type_synonym 'a LocalSortState = "'a sort_row list"

record 'a GlobalSortState =
  gs_orders :: "BoundOrderByNode list"
  gs_payload_layout :: "LogicalType list"
  sorted_blocks :: "'a sort_row list list"

record 'a ListSortBindData =
  order_type :: OrderType
  null_order :: OrderByNullType
  bd_return_type :: LogicalType
  child_type :: LogicalType
  types :: "LogicalType list"
  payload_types :: "LogicalType list"
  payload_layout :: "LogicalType list"
  orders :: "BoundOrderByNode list"
  global_sort_state :: "'a GlobalSortState option"

datatype 'a FunctionData =
  VariableReturnBindData LogicalType
| ListSortData "'a ListSortBindData"

text \<open>The constructor \<^verbatim>\<open>ListSortBindData::ListSortBindData\<close> (lines 35 to 58).\<close>

definition ListSortBindData_ctor ::
  "OrderType \<Rightarrow> OrderByNullType \<Rightarrow> LogicalType \<Rightarrow> LogicalType \<Rightarrow> 'a ListSortBindData" where
  "ListSortBindData_ctor order_type_p null_order_p return_type_p child_type_p =
     \<lparr>order_type = order_type_p,
      null_order = null_order_p,
      bd_return_type = return_type_p,
      child_type = child_type_p,
      types = [] @ [USMALLINT] @ [child_type_p],
      payload_types = [] @ [UINTEGER],
      payload_layout = [] @ [UINTEGER],
      orders = [] @
        [\<lparr>bon_type = ASCENDING, bon_null_order = ORDER_DEFAULT,
          bon_expression = BoundReferenceExpression USMALLINT 0\<rparr>] @
        [\<lparr>bon_type = order_type_p, bon_null_order = null_order_p,
          bon_expression = BoundReferenceExpression child_type_p 1\<rparr>],
      global_sort_state = None\<rparr>"

subsection \<open>Binding\<close>

text \<open>\<^verbatim>\<open>ListSortBind\<close> (lines 232 to 247); it also rewrites the bound function's types.\<close>

definition ListSortBind ::
  "ScalarFunction \<Rightarrow> Expression list \<Rightarrow> OrderType \<Rightarrow> OrderByNullType
     \<Rightarrow> exception + (ScalarFunction \<times> 'a FunctionData)" where
  "ListSortBind bound_function arguments order' null_order' =
     (if return_type (arguments ! 0) = SQLNULL then
        (let bound_function = bound_function\<lparr>bf_arguments := (bf_arguments bound_function)[0 := SQLNULL]\<rparr>;
             bound_function = bound_function\<lparr>bf_return_type := SQLNULL\<rparr>
         in Inr (bound_function, VariableReturnBindData (bf_return_type bound_function)))
      else
        (let bound_function = bound_function\<lparr>bf_arguments :=
               (bf_arguments bound_function)[0 := return_type (arguments ! 0)]\<rparr>;
             bound_function = bound_function\<lparr>bf_return_type := return_type (arguments ! 0)\<rparr>
         in case GetChildType (return_type (arguments ! 0)) of
              None \<Rightarrow> Inl AssertionFailure
            | Some child_type' \<Rightarrow>
                Inr (bound_function,
                     ListSortData (ListSortBindData_ctor order' null_order'
                       (bf_return_type bound_function) child_type'))))"

text \<open>\<^verbatim>\<open>GetNullOrder\<close> (lines 249 to 265).\<close>

definition GetNullOrder :: "Expression list \<Rightarrow> nat \<Rightarrow> exception + OrderByNullType" where
  "GetNullOrder arguments idx =
     (if \<not> IsFoldable (arguments ! idx) then
        Inl (InvalidInputException ''Null sorting order must be a constant'')
      else
        (let null_order_name = map toupper (EvaluateScalar (arguments ! idx)) in
         if null_order_name \<noteq> ''NULLS FIRST'' \<and> null_order_name \<noteq> ''NULLS LAST'' then
           Inl (InvalidInputException ''Null sorting order must be either NULLS FIRST or NULLS LAST'')
         else if null_order_name = ''NULLS LAST'' then Inr NULLS_LAST
         else Inr NULLS_FIRST))"

text \<open>The sorting-order block of \<^verbatim>\<open>ListNormalSortBind\<close> (lines 279 to 295).\<close>

definition GetOrder :: "Expression list \<Rightarrow> exception + OrderType" where
  "GetOrder arguments =
     (if \<not> IsFoldable (arguments ! 1) then
        Inl (InvalidInputException ''Sorting order must be a constant'')
      else
        (let order_name = map toupper (EvaluateScalar (arguments ! 1)) in
         if order_name \<noteq> ''DESC'' \<and> order_name \<noteq> ''ASC'' then
           Inl (InvalidInputException ''Sorting order must be either ASC or DESC'')
         else if order_name = ''DESC'' then Inr DESCENDING
         else Inr ASCENDING))"

text \<open>\<^verbatim>\<open>ListNormalSortBind\<close> (lines 267 to 303).\<close>

definition ListNormalSortBind ::
  "DBConfig \<Rightarrow> ScalarFunction \<Rightarrow> Expression list
     \<Rightarrow> exception + (ScalarFunction \<times> 'a FunctionData)" where
  "ListNormalSortBind config bound_function arguments =
     (if \<not> (length (bf_arguments bound_function) \<ge> 1 \<and> length (bf_arguments bound_function) \<le> 3) then
        Inl AssertionFailure
      else if \<not> (length arguments \<ge> 1 \<and> length arguments \<le> 3) then Inl AssertionFailure
      else
        (let order' = default_order_type config;
             null_order' = default_null_order config
         in case (if length arguments \<ge> 2 then GetOrder arguments else Inr order') of
              Inl e \<Rightarrow> Inl e
            | Inr order' \<Rightarrow>
                (case (if length arguments = 3 then GetNullOrder arguments 2 else Inr null_order') of
                   Inl e \<Rightarrow> Inl e
                 | Inr null_order' \<Rightarrow> ListSortBind bound_function arguments order' null_order')))"

text \<open>\<^verbatim>\<open>ListReverseSortBind\<close> (lines 305 to 322).\<close>

definition ListReverseSortBind ::
  "DBConfig \<Rightarrow> ScalarFunction \<Rightarrow> Expression list
     \<Rightarrow> exception + (ScalarFunction \<times> 'a FunctionData)" where
  "ListReverseSortBind config bound_function arguments =
     (if \<not> (length (bf_arguments bound_function) = 1 \<or> length (bf_arguments bound_function) = 2) then
        Inl AssertionFailure
      else if \<not> (length arguments = 1 \<or> length arguments = 2) then Inl AssertionFailure
      else
        (let order' = (if default_order_type config = ASCENDING then DESCENDING else ASCENDING);
             null_order' = default_null_order config
         in case (if length arguments = 2 then GetNullOrder arguments 1 else Inr null_order') of
              Inl e \<Rightarrow> Inl e
            | Inr null_order' \<Rightarrow> ListSortBind bound_function arguments order' null_order'))"

text \<open>
  The conditions under which binding rejects its arguments, as the specification lists
  them: the argument at position \<open>idx\<close> is not a constant, or its text is none of the two
  accepted tokens, compared case-insensitively.
\<close>

definition rejected_token :: "Expression list \<Rightarrow> nat \<Rightarrow> string \<Rightarrow> string \<Rightarrow> bool" where
  "rejected_token arguments idx tok1 tok2 =
     (\<not> IsFoldable (arguments ! idx) \<or>
      (\<not> iequals (EvaluateScalar (arguments ! idx)) tok1 \<and>
       \<not> iequals (EvaluateScalar (arguments ! idx)) tok2))"

text \<open>Concrete binding inputs used to exercise the theorems.\<close>

definition ex_list_arg :: Expression where
  "ex_list_arg = \<lparr>return_type = LIST INTEGER, IsFoldable = False, EvaluateScalar = []\<rparr>"

definition ex_const :: "string \<Rightarrow> Expression" where
  "ex_const s = \<lparr>return_type = VARCHAR, IsFoldable = True, EvaluateScalar = s\<rparr>"

definition ex_config :: DBConfig where
  "ex_config = \<lparr>default_order_type = ASCENDING, default_null_order = NULLS_FIRST\<rparr>"

definition ex_function :: "nat \<Rightarrow> ScalarFunction" where
  "ex_function n = \<lparr>bf_arguments = LIST ANY # replicate (n - 1) VARCHAR, bf_return_type = LIST ANY\<rparr>"

section \<open>Execution: vectors, memory and the sort engine\<close>

subsection \<open>Vectors and memory\<close>

text \<open>
  Vectors share buffers, and \<^verbatim>\<open>ListSortFunction\<close> works through that sharing, so a vector
  is a handle of addresses into an explicit memory. The memory holds the list-entry buffers
  (the per-row \<^verbatim>\<open>list_entry_t\<close> descriptors), the validity-mask buffers, and the child
  vectors of list vectors (the auxiliary list buffers). An address is an index into the
  respective list; allocating a buffer appends to it.
\<close>

record list_entry_t =
  offset :: nat
  length_e :: nat

datatype VectorType = FLAT_VECTOR | CONSTANT_VECTOR | DICTIONARY_VECTOR

type_synonym ValidityMask = "nat \<Rightarrow> bool"

type_synonym SelectionVector = "nat \<Rightarrow> nat"

record Vector =
  vec_type :: LogicalType
  vector_type :: VectorType
  vec_sel :: SelectionVector
  vec_data :: nat
  vec_validity :: "nat option"
  vec_auxiliary :: nat

text \<open>
  The child vector of a list vector: its selection (the identity when the vector is flat)
  over its element buffer; \<open>None\<close> is a NULL element.
\<close>

record 'a child_vector =
  cv_sel :: SelectionVector
  cv_data :: "'a option list"

record 'a memory =
  list_buffers :: "list_entry_t list list"
  validity_masks :: "ValidityMask list"
  child_vectors :: "'a child_vector list"

record DataChunk =
  dc_data :: "Vector list"
  dc_size :: nat

definition ColumnCount :: "DataChunk \<Rightarrow> nat" where
  "ColumnCount args = length (dc_data args)"

text \<open>
  Modelled from the spec: the columnar batch representation (validity masks, selection
  vectors, slicing) is an external collaborator of this file; \<^verbatim>\<open>Orrify\<close>,
  \<^verbatim>\<open>RowIsValid\<close>, \<^verbatim>\<open>SetInvalid\<close>, \<^verbatim>\<open>Slice\<close> and \<^verbatim>\<open>Normalify\<close> are declared outside it.
  \<^verbatim>\<open>Orrify\<close> gives the selection through which a vector's rows are read: the identity
  for a flat vector, row 0 for a constant vector, the dictionary's selection otherwise.
\<close>

definition Orrify_sel :: "Vector \<Rightarrow> SelectionVector" where
  "Orrify_sel v =
     (case vector_type v of
        FLAT_VECTOR \<Rightarrow> (\<lambda>i. i)
      | CONSTANT_VECTOR \<Rightarrow> (\<lambda>i. 0)
      | DICTIONARY_VECTOR \<Rightarrow> vec_sel v)"

text \<open>
  Modelled from the spec: a vector without a mask buffer has every row valid;
  \<^verbatim>\<open>SetInvalid\<close> on such a vector first allocates a mask with every row valid.
\<close>

definition RowIsValid :: "ValidityMask list \<Rightarrow> nat option \<Rightarrow> nat \<Rightarrow> bool" where
  "RowIsValid masks p row_idx = (case p of None \<Rightarrow> True | Some a \<Rightarrow> (masks ! a) row_idx)"

definition SetInvalid ::
  "ValidityMask list \<Rightarrow> nat option \<Rightarrow> nat \<Rightarrow> ValidityMask list \<times> nat option" where
  "SetInvalid masks p row_idx =
     (case p of
        None \<Rightarrow> (masks @ [(\<lambda>_. True)(row_idx := False)], Some (length masks))
      | Some a \<Rightarrow> (masks[a := (masks ! a)(row_idx := False)], Some a))"

text \<open>
  Modelled from the spec: slicing a vector by a selection reads row \<open>k\<close> of the slice at
  row \<open>sel k\<close> of the vector (selection-vector slicing); flattening the first \<open>n\<close> rows
  gathers them, in order, into a new element buffer read through the identity.
\<close>

definition GetValue :: "'a child_vector \<Rightarrow> nat \<Rightarrow> 'a option" where
  "GetValue v k = cv_data v ! cv_sel v k"

definition Slice :: "'a child_vector \<Rightarrow> SelectionVector \<Rightarrow> 'a child_vector" where
  "Slice v sel_p = v\<lparr>cv_sel := (\<lambda>k. cv_sel v (sel_p k))\<rparr>"

definition Normalify :: "'a child_vector \<Rightarrow> nat \<Rightarrow> 'a child_vector" where
  "Normalify v n = \<lparr>cv_sel = (\<lambda>i. i), cv_data = map (GetValue v) [0..<n]\<rparr>"

subsection \<open>The sort engine\<close>

text \<open>
  Modelled from the spec: the sort engine (\<^verbatim>\<open>GlobalSortState\<close>, \<^verbatim>\<open>LocalSortState\<close>,
  \<^verbatim>\<open>PayloadScanner\<close>) is not part of this file. Its comparator goes through the configured
  order nodes in turn; a node compares the key column its expression refers to (column 0 is
  the GroupIndex, which has no nulls, the other column is the element value), ascending in
  natural value order and descending reversed, a null element first under NULLS FIRST
  whatever the direction and last otherwise. Rows with equal keys are left in the order
  they were sunk, which is one of the orders the specification allows.
\<close>

datatype cmp = LT | EQ | GT

definition compare3 :: "'k::linorder \<Rightarrow> 'k \<Rightarrow> cmp" where
  "compare3 x y = (if x < y then LT else if x = y then EQ else GT)"

fun flip :: "cmp \<Rightarrow> cmp" where
  "flip LT = GT"
| "flip EQ = EQ"
| "flip GT = LT"

fun compare_values :: "OrderType \<Rightarrow> OrderByNullType \<Rightarrow> 'k::linorder option \<Rightarrow> 'k option \<Rightarrow> cmp" where
  "compare_values t n None None = EQ"
| "compare_values t n None (Some y) = (if n = NULLS_FIRST then LT else GT)"
| "compare_values t n (Some x) None = (if n = NULLS_FIRST then GT else LT)"
| "compare_values t n (Some x) (Some y) =
     (if t = DESCENDING then flip (compare3 x y) else compare3 x y)"

fun compare_column :: "BoundOrderByNode \<Rightarrow> ('a::linorder) sort_row \<Rightarrow> 'a sort_row \<Rightarrow> cmp" where
  "compare_column node (g1, e1, p1) (g2, e2, p2) =
     (case bon_expression node of
        BoundReferenceExpression _ idx \<Rightarrow>
          if idx = 0 then compare_values (bon_type node) (bon_null_order node) (Some g1) (Some g2)
          else compare_values (bon_type node) (bon_null_order node) e1 e2)"

fun compare_rows :: "BoundOrderByNode list \<Rightarrow> ('a::linorder) sort_row \<Rightarrow> 'a sort_row \<Rightarrow> cmp" where
  "compare_rows [] a b = EQ"
| "compare_rows (node # nodes) a b =
     (case compare_column node a b of EQ \<Rightarrow> compare_rows nodes a b | c \<Rightarrow> c)"

definition row_le :: "BoundOrderByNode list \<Rightarrow> ('a::linorder) sort_row \<Rightarrow> 'a sort_row \<Rightarrow> bool" where
  "row_le nodes a b = (compare_rows nodes a b \<noteq> GT)"

fun insert_row :: "BoundOrderByNode list \<Rightarrow> ('a::linorder) sort_row \<Rightarrow> 'a sort_row list \<Rightarrow> 'a sort_row list" where
  "insert_row nodes x [] = [x]"
| "insert_row nodes x (y # ys) =
     (if row_le nodes x y then x # y # ys else y # insert_row nodes x ys)"

definition sort_rows :: "BoundOrderByNode list \<Rightarrow> ('a::linorder) sort_row list \<Rightarrow> 'a sort_row list" where
  "sort_rows nodes xs = foldr (insert_row nodes) xs []"

text \<open>
  Modelled from the spec: sinking a chunk appends its rows (key columns and payload) to the
  local state; adding the local state to the global state sorts its rows into a run;
  preparing the merge phase merges all runs into one; the scanner hands out the payloads of
  the final run in order, at most one standard vector at a time, each exactly once.
\<close>

definition SinkChunk ::
  "'a LocalSortState \<Rightarrow> (16 word \<times> 'a option) list \<Rightarrow> 32 word list \<Rightarrow> 'a LocalSortState" where
  "SinkChunk local_state key_chunk payload_chunk =
     local_state @ map (\<lambda>((g, e), p). (g, e, p)) (zip key_chunk payload_chunk)"

definition AddLocalState ::
  "('a::linorder) GlobalSortState \<Rightarrow> 'a LocalSortState \<Rightarrow> 'a GlobalSortState" where
  "AddLocalState global_state local_state =
     global_state\<lparr>sorted_blocks :=
       sorted_blocks global_state @ [sort_rows (gs_orders global_state) local_state]\<rparr>"

definition PrepareMergePhase :: "('a::linorder) GlobalSortState \<Rightarrow> 'a GlobalSortState" where
  "PrepareMergePhase global_state =
     global_state\<lparr>sorted_blocks :=
       [sort_rows (gs_orders global_state) (concat (sorted_blocks global_state))]\<rparr>"

type_synonym PayloadScanner = "32 word list"

definition PayloadScanner :: "'a GlobalSortState \<Rightarrow> PayloadScanner" where
  "PayloadScanner global_state = map (\<lambda>(g, e, p). p) (sorted_blocks global_state ! 0)"

definition Scan :: "nat \<Rightarrow> PayloadScanner \<Rightarrow> 32 word list \<times> PayloadScanner" where
  "Scan vsize scanner = (take vsize scanner, drop vsize scanner)"

section \<open>Execution: \<^verbatim>\<open>ListSortFunction\<close>\<close>

text \<open>
  \<^verbatim>\<open>SinkDataChunk\<close> (lines 73 to 96): the key chunk holds, for each of the first
  \<open>offset_lists_indices\<close> buffer positions, the group index and the element read through the
  slice of the child vector; the payload chunk holds the payload buffer. The column types
  passed along only initialise the chunks.
\<close>

definition SinkDataChunk ::
  "'a child_vector \<Rightarrow> SelectionVector \<Rightarrow> nat \<Rightarrow> (nat \<Rightarrow> 32 word) \<Rightarrow> 'a LocalSortState
     \<Rightarrow> (nat \<Rightarrow> 16 word) \<Rightarrow> 'a LocalSortState \<times> bool" where
  "SinkDataChunk child_vector sel_p offset_p payload_vector local_state lists_indices =
     (let slice = Slice child_vector sel_p;
          key_chunk = map (\<lambda>k. (lists_indices k, GetValue slice k)) [0..<offset_p];
          payload_chunk = map payload_vector [0..<offset_p]
      in (SinkChunk local_state key_chunk payload_chunk, True))"

text \<open>
  The local variables of \<^verbatim>\<open>ListSortFunction\<close> that its loops update. \<open>result\<close> is the
  result vector's handle and \<open>masks\<close> the validity-mask buffers of the memory (written by
  \<^verbatim>\<open>result_validity.SetInvalid\<close>). The three buffers \<open>sel\<close>, \<open>lists_indices_data\<close> and
  \<open>payload_vector_data\<close> hold one standard vector; only their first
  \<open>offset_lists_indices\<close> positions are ever read. \<open>incr_payload_count\<close> is a
  \<^verbatim>\<open>uint32_t\<close>, the group indices are \<^verbatim>\<open>uint16_t\<close>.
\<close>

record 'a locals =
  result :: Vector
  masks :: "ValidityMask list"
  local_sort_state :: "'a LocalSortState"
  sel :: SelectionVector
  lists_indices_data :: "nat \<Rightarrow> 16 word"
  payload_vector_data :: "nat \<Rightarrow> 32 word"
  offset_lists_indices :: nat
  incr_payload_count :: "32 word"
  data_to_sort :: bool

text \<open>
  The body of the inner loop (lines 171 to 183) for element \<open>child_idx\<close> of row \<open>i\<close>.
  \<open>vsize\<close> is \<^verbatim>\<open>STANDARD_VECTOR_SIZE\<close>, a constant declared outside the file. The row
  counter is cast to \<^verbatim>\<open>uint32_t\<close> and stored through a \<^verbatim>\<open>uint16_t\<close> pointer.
\<close>

definition element_step ::
  "nat \<Rightarrow> 'a child_vector \<Rightarrow> list_entry_t \<Rightarrow> nat \<Rightarrow> nat \<Rightarrow> 'a locals \<Rightarrow> 'a locals" where
  "element_step vsize child_vector list_entry i child_idx s0 =
     (let s = (if offset_lists_indices s0 = vsize then
                 (let (l, d) = SinkDataChunk child_vector (sel s0) (offset_lists_indices s0)
                                 (payload_vector_data s0) (local_sort_state s0) (lists_indices_data s0)
                  in s0\<lparr>local_sort_state := l, data_to_sort := d, offset_lists_indices := 0\<rparr>)
               else s0);
          source_idx = cv_sel child_vector (offset list_entry + child_idx)
      in s\<lparr>sel := (sel s)(offset_lists_indices s := source_idx),
           lists_indices_data := (lists_indices_data s)
             (offset_lists_indices s := ucast (of_nat i :: 32 word)),
           payload_vector_data := (payload_vector_data s)
             (offset_lists_indices s := incr_payload_count s),
           offset_lists_indices := offset_lists_indices s + 1,
           incr_payload_count := incr_payload_count s + 1\<rparr>)"

text \<open>The body of the row loop (lines 155 to 184) for row \<open>i\<close>.\<close>

definition row_step ::
  "nat \<Rightarrow> SelectionVector \<Rightarrow> list_entry_t list \<Rightarrow> nat option \<Rightarrow> 'a child_vector \<Rightarrow> nat
     \<Rightarrow> 'a locals \<Rightarrow> 'a locals" where
  "row_step vsize lists_sel list_entries lists_validity child_vector i s =
     (let lists_index = lists_sel i;
          list_entry = list_entries ! lists_index
      in if \<not> RowIsValid (masks s) lists_validity lists_index then
           (let (m, p) = SetInvalid (masks s) (vec_validity (result s)) i
            in s\<lparr>masks := m, result := (result s)\<lparr>vec_validity := p\<rparr>\<rparr>)
         else if length_e list_entry = 0 then s
         else fold (element_step vsize child_vector list_entry i) [0..<length_e list_entry] s)"

text \<open>
  The scan loop (lines 204 to 222): it ends at the first empty chunk. Every non-empty chunk
  shortens what the scanner still holds, so the loop terminates.
\<close>

function drain ::
  "nat \<Rightarrow> PayloadScanner \<Rightarrow> SelectionVector \<Rightarrow> nat \<Rightarrow> SelectionVector \<times> nat" where
  "drain vsize scanner sel_sorted sel_sorted_idx =
     (if length (fst (Scan vsize scanner)) = 0 then (sel_sorted, sel_sorted_idx)
      else
        (let result_data = fst (Scan vsize scanner);
             row_count = length result_data;
             (sel_sorted, sel_sorted_idx) =
               fold (\<lambda>i (sv, idx). (sv(idx := unat (result_data ! i)), idx + 1))
                 [0..<row_count] (sel_sorted, sel_sorted_idx)
         in drain vsize (snd (Scan vsize scanner)) sel_sorted sel_sorted_idx))"
  by pat_completeness auto
termination
  by (relation "measure (\<lambda>(vsize, scanner, sv, idx). length scanner)")
     (auto simp add: Scan_def)

declare drain.simps [simp del]

text \<open>
  The key-building part of \<^verbatim>\<open>ListSortFunction\<close> (lines 122 to 190): the row loop over the
  \<open>count\<close> rows of \<open>lists\<close>, then the sink of what the buffers still hold. Of
  \<^verbatim>\<open>ListVector::GetListSize\<close> only the call to \<^verbatim>\<open>Orrify\<close> makes use, which does not depend
  on it here. The buffers start out zeroed; what they hold beyond the positions written is
  never read.
\<close>

definition key_builder :: "nat \<Rightarrow> nat \<Rightarrow> Vector \<Rightarrow> Vector \<Rightarrow> 'a memory \<Rightarrow> 'a locals" where
  "key_builder vsize count lists' result_p mem =
     (let child_vector = child_vectors mem ! vec_auxiliary lists';
          list_entries = list_buffers mem ! vec_data lists';
          s = \<lparr>result = result_p, masks = validity_masks mem, local_sort_state = [],
               sel = (\<lambda>_. 0), lists_indices_data = (\<lambda>_. 0),
               payload_vector_data = (\<lambda>_. 0), offset_lists_indices = 0,
               incr_payload_count = 0, data_to_sort = False\<rparr>;
          s = fold (row_step vsize (Orrify_sel lists') list_entries (vec_validity lists')
                      child_vector) [0..<count] s
      in if offset_lists_indices s \<noteq> 0 then
           (let (l, d) = SinkDataChunk child_vector (sel s) (offset_lists_indices s)
                           (payload_vector_data s) (local_sort_state s) (lists_indices_data s)
            in s\<lparr>local_sort_state := l, data_to_sort := d\<rparr>)
         else s)"

text \<open>
  \<^verbatim>\<open>ListSortFunction\<close> (lines 98 to 230). It returns the memory, the bind data (whose
  \<open>global_sort_state\<close> it replaces) and the result vector's handle; the last statement,
  \<^verbatim>\<open>result.Reference(lists)\<close>, makes the result the handle of \<open>lists\<close>. The child vector
  is sliced and flattened in place, at its address in the memory.
\<close>

definition ListSortFunction ::
  "nat \<Rightarrow> DataChunk \<Rightarrow> ('a::linorder) ListSortBindData \<Rightarrow> Vector \<Rightarrow> 'a memory
     \<Rightarrow> exception + ('a memory \<times> 'a ListSortBindData \<times> Vector)" where
  "ListSortFunction vsize args info result_p mem =
     (if \<not> (ColumnCount args \<ge> 1 \<and> ColumnCount args \<le> 3) then Inl AssertionFailure
      else
        (let count = dc_size args;
             lists' = dc_data args ! 0;
             result_p = result_p\<lparr>vector_type := FLAT_VECTOR\<rparr>
         in if vec_type lists' = SQLNULL then
              (let (m, p) = SetInvalid (validity_masks mem) (vec_validity result_p) 0
               in Inr (mem\<lparr>validity_masks := m\<rparr>, info, result_p\<lparr>vec_validity := p\<rparr>))
            else
              (let global_state = \<lparr>gs_orders = orders info,
                                   gs_payload_layout = payload_layout info,
                                   sorted_blocks = []\<rparr>;
                   info = info\<lparr>global_sort_state := Some global_state\<rparr>;
                   child_vector = child_vectors mem ! vec_auxiliary lists';
                   s = key_builder vsize count lists' result_p mem
               in if data_to_sort s then
                    (let global_state = AddLocalState global_state (local_sort_state s);
                         global_state = PrepareMergePhase global_state;
                         (sel_sorted, sel_sorted_idx) =
                           drain vsize (PayloadScanner global_state) (\<lambda>_. 0) 0
                     in if sel_sorted_idx \<noteq> unat (incr_payload_count s) then Inl AssertionFailure
                        else
                          Inr (mem\<lparr>validity_masks := masks s,
                                   child_vectors := (child_vectors mem)
                                     [vec_auxiliary lists' :=
                                        Normalify (Slice child_vector sel_sorted) sel_sorted_idx]\<rparr>,
                               info\<lparr>global_sort_state := Some global_state\<rparr>,
                               lists'))
                  else Inr (mem\<lparr>validity_masks := masks s\<rparr>, info, lists'))))"

section \<open>Notions used to state the properties\<close>

text \<open>
  The rows emitted so far are those already sunk followed by those waiting in the buffers.
\<close>

definition buffer_rows :: "'a child_vector \<Rightarrow> 'a locals \<Rightarrow> 'a sort_row list" where
  "buffer_rows child_vector s =
     map (\<lambda>k. (lists_indices_data s k, GetValue (Slice child_vector (sel s)) k,
               payload_vector_data s k)) [0..<offset_lists_indices s]"

definition emitted :: "'a child_vector \<Rightarrow> 'a locals \<Rightarrow> 'a sort_row list" where
  "emitted child_vector s = local_sort_state s @ buffer_rows child_vector s"

text \<open>
  The result vector does not share its validity mask with the input, whose mask (when it has
  one) is allocated.
\<close>

definition separate_masks :: "ValidityMask list \<Rightarrow> Vector \<Rightarrow> Vector \<Rightarrow> bool" where
  "separate_masks ms lists' result_p =
     (case vec_validity lists' of
        None \<Rightarrow> True
      | Some a \<Rightarrow> a < length ms \<and> vec_validity result_p \<noteq> Some a)"

text \<open>
  The rows one valid row \<open>i\<close> contributes, its first element getting the payload \<open>p0\<close>.
\<close>

definition row_triples :: "'a child_vector \<Rightarrow> list_entry_t \<Rightarrow> nat \<Rightarrow> 32 word \<Rightarrow> 'a sort_row list" where
  "row_triples child_vector list_entry i p0 =
     map (\<lambda>c. (of_nat i, cv_data child_vector ! cv_sel child_vector
                   (cv_sel child_vector (offset list_entry + c)), p0 + of_nat c))
       [0..<length_e list_entry]"

text \<open>
  The loop keeps the input's validity mask as it was in \<open>ms0\<close>, and the result's mask apart from it.
\<close>

definition masks_kept :: "ValidityMask list \<Rightarrow> nat option \<Rightarrow> 'a locals \<Rightarrow> bool" where
  "masks_kept ms0 lv s =
     (case lv of
        None \<Rightarrow> True
      | Some a \<Rightarrow> a < length (masks s) \<and> vec_validity (result s) \<noteq> Some a \<and> masks s ! a = ms0 ! a)"

text \<open>
  The key columns the rows of a batch contribute, row by row: every element of a valid row with
  the row's index, narrowed to 16 bits, as its group index.
\<close>

definition expected_keys ::
  "'a child_vector \<Rightarrow> SelectionVector \<Rightarrow> list_entry_t list \<Rightarrow> nat option \<Rightarrow> ValidityMask list
     \<Rightarrow> nat \<Rightarrow> (16 word \<times> 'a option) list" where
  "expected_keys child lsel entries lv ms0 count =
     concat (map (\<lambda>i. if RowIsValid ms0 lv (lsel i)
                        then map (\<lambda>c. (of_nat i, cv_data child ! cv_sel child
                                    (cv_sel child (offset (entries ! lsel i) + c))))
                               [0..<length_e (entries ! lsel i)]
                        else []) [0..<count])"

text \<open>
  The payloads of the rows emitted so far count up from 0, and \<open>incr_payload_count\<close> is their
  number (as a 32-bit value).
\<close>

definition numbered :: "'a child_vector \<Rightarrow> 'a locals \<Rightarrow> bool" where
  "numbered child s =
     (incr_payload_count s = of_nat (length (emitted child s)) \<and>
      map (\<lambda>(g, e, p). p) (emitted child s) = map of_nat [0..<length (emitted child s)])"

text \<open>
  Nothing has been sunk while the buffers are at position 0, and \<open>data_to_sort\<close> is set only once
  a row was emitted.
\<close>

definition sink_state :: "'a child_vector \<Rightarrow> 'a locals \<Rightarrow> bool" where
  "sink_state child s =
     ((offset_lists_indices s = 0 \<longrightarrow> local_sort_state s = []) \<and>
      (data_to_sort s \<longrightarrow> emitted child s \<noteq> []))"

text \<open>
  The state of the locals when the row loop of \<open>key_builder\<close> ends (before the last sink).
\<close>

definition row_loop :: "nat \<Rightarrow> nat \<Rightarrow> Vector \<Rightarrow> Vector \<Rightarrow> 'a memory \<Rightarrow> 'a locals" where
  "row_loop vsize count lists' result_p mem =
     fold (row_step vsize (Orrify_sel lists') (list_buffers mem ! vec_data lists')
             (vec_validity lists') (child_vectors mem ! vec_auxiliary lists')) [0..<count]
       \<lparr>result = result_p, masks = validity_masks mem, local_sort_state = [],
        sel = (\<lambda>_. 0), lists_indices_data = (\<lambda>_. 0),
        payload_vector_data = (\<lambda>_. 0), offset_lists_indices = 0,
        incr_payload_count = 0, data_to_sort = False\<rparr>"

section \<open>Concrete inputs\<close>

text \<open>
  The example of the specification, \<open>[[3,1,2], NULL, [], [5,NULL,1]]\<close>: a flat list vector of
  four rows over one child buffer, and a fresh result vector.
\<close>

definition ex_lists :: Vector where
  "ex_lists = \<lparr>vec_type = LIST INTEGER, vector_type = FLAT_VECTOR, vec_sel = (\<lambda>i. i), vec_data = 0,
     vec_validity = Some 0, vec_auxiliary = 0\<rparr>"

definition ex_result :: Vector where
  "ex_result = \<lparr>vec_type = LIST INTEGER, vector_type = FLAT_VECTOR, vec_sel = (\<lambda>i. i), vec_data = 1,
     vec_validity = None, vec_auxiliary = 1\<rparr>"

definition ex_mem :: "int memory" where
  "ex_mem = \<lparr>list_buffers = [[\<lparr>offset = 0, length_e = 3\<rparr>, \<lparr>offset = 3, length_e = 0\<rparr>,
      \<lparr>offset = 3, length_e = 0\<rparr>, \<lparr>offset = 3, length_e = 3\<rparr>], []],
    validity_masks = [(\<lambda>i. i \<noteq> 1)],
    child_vectors = [\<lparr>cv_sel = (\<lambda>i. i), cv_data = [Some 3, Some 1, Some 2, Some 5, None, Some 1]\<rparr>,
       \<lparr>cv_sel = (\<lambda>i. i), cv_data = []\<rparr>]\<rparr>"

definition ex_args :: DataChunk where
  "ex_args = \<lparr>dc_data = [ex_lists], dc_size = 4\<rparr>"

text \<open>A single list of \<open>2^32\<close> elements.\<close>

definition huge_lists :: Vector where
  "huge_lists = \<lparr>vec_type = LIST INTEGER, vector_type = FLAT_VECTOR, vec_sel = (\<lambda>i. i),
     vec_data = 0, vec_validity = None, vec_auxiliary = 0\<rparr>"

definition huge_child :: "int child_vector" where
  "huge_child = \<lparr>cv_sel = (\<lambda>i. i), cv_data = replicate 4294967296 (Some 0)\<rparr>"

definition huge_mem :: "int memory" where
  "huge_mem = \<lparr>list_buffers = [[\<lparr>offset = 0, length_e = 4294967296\<rparr>]], validity_masks = [],
     child_vectors = [huge_child]\<rparr>"

definition huge_args :: DataChunk where
  "huge_args = \<lparr>dc_data = [huge_lists], dc_size = 1\<rparr>"



text \<open>
  A list vector read through a selection: the batch has one row, which is entry 1 of the
  list buffer (a filter dropped entry 0); its elements 4 and 3 stand at positions 2 and 3
  of the child buffer.
\<close>

definition sliced_lists :: Vector where
  "sliced_lists = \<lparr>vec_type = LIST INTEGER, vector_type = DICTIONARY_VECTOR, vec_sel = (\<lambda>i. i + 1),
     vec_data = 0, vec_validity = None, vec_auxiliary = 0\<rparr>"

definition sliced_mem :: "int memory" where
  "sliced_mem = \<lparr>list_buffers = [[\<lparr>offset = 0, length_e = 2\<rparr>, \<lparr>offset = 2, length_e = 2\<rparr>]],
     validity_masks = [],
     child_vectors = [\<lparr>cv_sel = (\<lambda>i. i), cv_data = [Some 20, Some 10, Some 4, Some 3]\<rparr>]\<rparr>"

definition sliced_args :: DataChunk where
  "sliced_args = \<lparr>dc_data = [sliced_lists], dc_size = 1\<rparr>"

text \<open>
  The vector's validity mask, when it has one, is allocated.
\<close>

definition allocated_mask :: "ValidityMask list \<Rightarrow> Vector \<Rightarrow> bool" where
  "allocated_mask ms v = (case vec_validity v of None \<Rightarrow> True | Some a \<Rightarrow> a < length ms)"

text \<open>
  A batch of two rows read through a selection from the example's list buffer: entry 1 (a
  null list) and entry 2 (an empty list).
\<close>

definition idle_lists :: Vector where
  "idle_lists = \<lparr>vec_type = LIST INTEGER, vector_type = DICTIONARY_VECTOR, vec_sel = (\<lambda>i. i + 1),
     vec_data = 0, vec_validity = Some 0, vec_auxiliary = 0\<rparr>"

definition idle_args :: DataChunk where
  "idle_args = \<lparr>dc_data = [idle_lists], dc_size = 2\<rparr>"

text \<open>
  A vector of the untyped NULL type in a batch of two rows, and an empty memory.
\<close>

definition null_lists :: Vector where
  "null_lists = \<lparr>vec_type = SQLNULL, vector_type = CONSTANT_VECTOR, vec_sel = (\<lambda>i. i),
     vec_data = 0, vec_validity = None, vec_auxiliary = 0\<rparr>"

definition null_args :: DataChunk where
  "null_args = \<lparr>dc_data = [null_lists], dc_size = 2\<rparr>"

definition null_mem :: "int memory" where
  "null_mem = \<lparr>list_buffers = [], validity_masks = [], child_vectors = []\<rparr>"

text \<open>
  The batch \<open>[[3,1,2], [], [5,NULL,1], NULL]\<close> read through the example's list vector: the
  list entry of the null row 3 spans the two elements 9 and 7 at the end of the child
  buffer. With it, the locals of the key builder as the row loop starts on that batch.
\<close>

definition gap_mem :: "int memory" where
  "gap_mem = \<lparr>list_buffers = [[\<lparr>offset = 0, length_e = 3\<rparr>, \<lparr>offset = 3, length_e = 0\<rparr>,
      \<lparr>offset = 3, length_e = 3\<rparr>, \<lparr>offset = 6, length_e = 2\<rparr>], []],
    validity_masks = [(\<lambda>i. i \<noteq> 3)],
    child_vectors = [\<lparr>cv_sel = (\<lambda>i. i),
         cv_data = [Some 3, Some 1, Some 2, Some 5, None, Some 1, Some 9, Some 7]\<rparr>,
       \<lparr>cv_sel = (\<lambda>i. i), cv_data = []\<rparr>]\<rparr>"

definition gap_locals :: "int locals" where
  "gap_locals = \<lparr>result = ex_result, masks = validity_masks gap_mem, local_sort_state = [],
     sel = (\<lambda>_. 0), lists_indices_data = (\<lambda>_. 0), payload_vector_data = (\<lambda>_. 0),
     offset_lists_indices = 0, incr_payload_count = 0, data_to_sort = False\<rparr>"

section \<open>Properties of binding\<close>

lemma toupper_tokens:
  "map toupper ''ASC'' = ''ASC''" "map toupper ''DESC'' = ''DESC''"
  "map toupper ''NULLS FIRST'' = ''NULLS FIRST''" "map toupper ''NULLS LAST'' = ''NULLS LAST''"
  by (simp_all add: islower_def)

lemma GetOrder_Inl_iff:
  "(\<exists>msg. GetOrder arguments = Inl (InvalidInputException msg)) \<longleftrightarrow> rejected_token arguments 1 ''ASC'' ''DESC''"
  unfolding GetOrder_def rejected_token_def iequals_def toupper_tokens Let_def
  by auto

lemma GetOrder_cases:
  "rejected_token arguments 1 ''ASC'' ''DESC'' \<and> (\<exists>msg. GetOrder arguments = Inl (InvalidInputException msg))
   \<or> \<not> rejected_token arguments 1 ''ASC'' ''DESC'' \<and> (\<exists>ord. GetOrder arguments = Inr ord)"
  unfolding GetOrder_def rejected_token_def iequals_def toupper_tokens Let_def
  by auto

lemma GetNullOrder_cases:
  "rejected_token arguments idx ''NULLS FIRST'' ''NULLS LAST'' \<and> (\<exists>msg. GetNullOrder arguments idx = Inl (InvalidInputException msg))
   \<or> \<not> rejected_token arguments idx ''NULLS FIRST'' ''NULLS LAST'' \<and> (\<exists>ord. GetNullOrder arguments idx = Inr ord)"
  unfolding GetNullOrder_def rejected_token_def iequals_def toupper_tokens Let_def
  by auto

lemma ListSortBind_not_invalid:
  "(ListSortBind bf arguments ord nord :: exception + (ScalarFunction \<times> 'a FunctionData)) \<noteq> Inl (InvalidInputException msg)"
  by (simp add: ListSortBind_def Let_def split: option.splits)

lemma ListSortBind_Inr:
  "return_type (arguments ! 0) = SQLNULL \<or> (\<exists>t. return_type (arguments ! 0) = LIST t) \<Longrightarrow>
   \<exists>r. (ListSortBind bf arguments ord nord :: exception + (ScalarFunction \<times> 'a FunctionData)) = Inr r"
  by (auto simp add: ListSortBind_def Let_def split: option.splits)








text \<open>
  Claim C7. At binding time an invalid-input error is raised if and only if the order
  argument (position 1 of \<^verbatim>\<open>list_sort\<close>) is present and is not a constant or its text is
  neither ASC nor DESC, or the null-order argument (position 2 of \<^verbatim>\<open>list_sort\<close>,
  position 1 of \<^verbatim>\<open>list_reverse_sort\<close>) is present and is not a constant or its text is
  neither NULLS FIRST nor NULLS LAST, the texts compared case-insensitively. With a first
  argument of a list type (or the untyped NULL), binding succeeds in every other case, so
  every case variant of the accepted tokens binds.
\<close>

theorem bind_invalid_input_iff:
  assumes "1 \<le> length (bf_arguments bf)" "length (bf_arguments bf) \<le> 3"
      and "1 \<le> length arguments" "length arguments \<le> 3"
  shows "((\<exists>msg. (ListNormalSortBind config bf arguments :: exception + (ScalarFunction \<times> 'a FunctionData))
              = Inl (InvalidInputException msg)) \<longleftrightarrow>
          (2 \<le> length arguments \<and> rejected_token arguments 1 ''ASC'' ''DESC'') \<or>
          (length arguments = 3 \<and> rejected_token arguments 2 ''NULLS FIRST'' ''NULLS LAST''))
       \<and> (return_type (arguments ! 0) = SQLNULL \<or> (\<exists>t. return_type (arguments ! 0) = LIST t) \<longrightarrow>
           ((\<exists>r. (ListNormalSortBind config bf arguments :: exception + (ScalarFunction \<times> 'a FunctionData)) = Inr r) \<longleftrightarrow>
            \<not> ((2 \<le> length arguments \<and> rejected_token arguments 1 ''ASC'' ''DESC'') \<or>
               (length arguments = 3 \<and> rejected_token arguments 2 ''NULLS FIRST'' ''NULLS LAST''))))
       \<and> (length (bf_arguments bf) \<le> 2 \<and> length arguments \<le> 2 \<longrightarrow>
           ((\<exists>msg. (ListReverseSortBind config bf arguments :: exception + (ScalarFunction \<times> 'a FunctionData))
              = Inl (InvalidInputException msg)) \<longleftrightarrow>
            (length arguments = 2 \<and> rejected_token arguments 1 ''NULLS FIRST'' ''NULLS LAST'')))
       \<and> (length (bf_arguments bf) \<le> 2 \<and> length arguments \<le> 2 \<and>
          (return_type (arguments ! 0) = SQLNULL \<or> (\<exists>t. return_type (arguments ! 0) = LIST t)) \<longrightarrow>
           ((\<exists>r. (ListReverseSortBind config bf arguments :: exception + (ScalarFunction \<times> 'a FunctionData)) = Inr r) \<longleftrightarrow>
            \<not> (length arguments = 2 \<and> rejected_token arguments 1 ''NULLS FIRST'' ''NULLS LAST'')))"
proof -
  let ?N = "ListNormalSortBind config bf arguments :: exception + (ScalarFunction \<times> 'a FunctionData)"
  let ?R = "ListReverseSortBind config bf arguments :: exception + (ScalarFunction \<times> 'a FunctionData)"
  note sb = ListSortBind_not_invalid [where ?'a = 'a] ListSortBind_Inr [where ?'a = 'a]
  have n1: "(\<exists>msg. ?N = Inl (InvalidInputException msg)) \<longleftrightarrow>
          (2 \<le> length arguments \<and> rejected_token arguments 1 ''ASC'' ''DESC'') \<or>
          (length arguments = 3 \<and> rejected_token arguments 2 ''NULLS FIRST'' ''NULLS LAST'')"
    using assms GetOrder_cases [of arguments] GetNullOrder_cases [of arguments 2]
    by (auto simp add: ListNormalSortBind_def sb)
  have n2: "(\<exists>r. ?N = Inr r) \<longleftrightarrow>
            \<not> ((2 \<le> length arguments \<and> rejected_token arguments 1 ''ASC'' ''DESC'') \<or>
               (length arguments = 3 \<and> rejected_token arguments 2 ''NULLS FIRST'' ''NULLS LAST''))"
    if "return_type (arguments ! 0) = SQLNULL \<or> (\<exists>t. return_type (arguments ! 0) = LIST t)"
    using assms GetOrder_cases [of arguments] GetNullOrder_cases [of arguments 2]
      ListSortBind_Inr [OF that, where ?'a = 'a and bf = bf]
    by (auto simp add: ListNormalSortBind_def)
  have r1: "(\<exists>msg. ?R = Inl (InvalidInputException msg)) \<longleftrightarrow>
            (length arguments = 2 \<and> rejected_token arguments 1 ''NULLS FIRST'' ''NULLS LAST'')"
    if "length (bf_arguments bf) \<le> 2 \<and> length arguments \<le> 2"
    using assms that GetNullOrder_cases [of arguments 1]
    by (auto simp add: ListReverseSortBind_def sb)
  have r2: "(\<exists>r. ?R = Inr r) \<longleftrightarrow>
            \<not> (length arguments = 2 \<and> rejected_token arguments 1 ''NULLS FIRST'' ''NULLS LAST'')"
    if "length (bf_arguments bf) \<le> 2 \<and> length arguments \<le> 2"
      and "return_type (arguments ! 0) = SQLNULL \<or> (\<exists>t. return_type (arguments ! 0) = LIST t)"
    using assms that(1) GetNullOrder_cases [of arguments 1]
      ListSortBind_Inr [OF that(2), where ?'a = 'a and bf = bf]
    by (auto simp add: ListReverseSortBind_def)
  show ?thesis using n1 n2 r1 r2 by blast
qed


text \<open>
  The theorem at concrete arguments: \<open>desc\<close> with \<open>Nulls Last\<close> binds, \<open>descending\<close> is
  rejected, and \<^verbatim>\<open>list_reverse_sort\<close> rejects \<open>first\<close> and accepts \<open>nulls FIRST\<close>.
\<close>

theorem bind_invalid_input_iff_witness:
  "(\<exists>r. (ListNormalSortBind ex_config (ex_function 3)
            [ex_list_arg, ex_const ''desc'', ex_const ''Nulls Last'']
          :: exception + (ScalarFunction \<times> nat FunctionData)) = Inr r)
   \<and> (\<exists>msg. (ListNormalSortBind ex_config (ex_function 3)
            [ex_list_arg, ex_const ''descending'', ex_const ''Nulls Last'']
          :: exception + (ScalarFunction \<times> nat FunctionData)) = Inl (InvalidInputException msg))
   \<and> (\<exists>msg. (ListReverseSortBind ex_config (ex_function 2) [ex_list_arg, ex_const ''first'']
          :: exception + (ScalarFunction \<times> nat FunctionData)) = Inl (InvalidInputException msg))
   \<and> (\<exists>r. (ListReverseSortBind ex_config (ex_function 2) [ex_list_arg, ex_const ''nulls FIRST'']
          :: exception + (ScalarFunction \<times> nat FunctionData)) = Inr r)"
  using
    bind_invalid_input_iff [where ?'a = nat and config = ex_config and bf = "ex_function 3"
      and arguments = "[ex_list_arg, ex_const ''desc'', ex_const ''Nulls Last'']"]
    bind_invalid_input_iff [where ?'a = nat and config = ex_config and bf = "ex_function 3"
      and arguments = "[ex_list_arg, ex_const ''descending'', ex_const ''Nulls Last'']"]
    bind_invalid_input_iff [where ?'a = nat and config = ex_config and bf = "ex_function 2"
      and arguments = "[ex_list_arg, ex_const ''first'']"]
    bind_invalid_input_iff [where ?'a = nat and config = ex_config and bf = "ex_function 2"
      and arguments = "[ex_list_arg, ex_const ''nulls FIRST'']"]
  by (simp add: ex_function_def ex_list_arg_def ex_const_def rejected_token_def iequals_def
      islower_def)

text \<open>
  Claim C8. With the order and null-order arguments omitted, \<^verbatim>\<open>list_sort\<close> binds with the
  configured default order and default null order. \<^verbatim>\<open>list_reverse_sort\<close> binds with the
  inverse of the default order (an ascending default gives descending, a descending default
  gives ascending) and the default null order; when a null-order argument is supplied, the
  policy that argument names is used instead (NULLS FIRST binds nulls first, NULLS LAST binds
  nulls last, in any letter case and whatever the default is), the order staying the inverse
  of the default.
\<close>

theorem bind_defaults:
  assumes "1 \<le> length (bf_arguments bf)" "length (bf_arguments bf) \<le> 2"
      and "return_type a = LIST t"
  shows "(\<exists>bf'. (ListNormalSortBind config bf [a] :: exception + (ScalarFunction \<times> 'a FunctionData)) =
            Inr (bf', ListSortData (ListSortBindData_ctor (default_order_type config)
                   (default_null_order config) (LIST t) t)))
       \<and> (\<exists>bf' d. (ListReverseSortBind config bf [a] :: exception + (ScalarFunction \<times> 'a FunctionData)) =
            Inr (bf', ListSortData d) \<and> null_order d = default_null_order config \<and>
            (default_order_type config = ASCENDING \<longrightarrow> order_type d = DESCENDING) \<and>
            (default_order_type config = DESCENDING \<longrightarrow> order_type d = ASCENDING))
       \<and> (\<forall>no. GetNullOrder [a, n] 1 = Inr no \<longrightarrow>
            (\<exists>bf' d. (ListReverseSortBind config bf [a, n] :: exception + (ScalarFunction \<times> 'a FunctionData)) =
               Inr (bf', ListSortData d) \<and> null_order d = no \<and>
               (default_order_type config = ASCENDING \<longrightarrow> order_type d = DESCENDING) \<and>
               (default_order_type config = DESCENDING \<longrightarrow> order_type d = ASCENDING)))
       \<and> (IsFoldable n \<and> iequals (EvaluateScalar n) ''NULLS FIRST'' \<longrightarrow>
            (\<exists>bf' d. (ListReverseSortBind config bf [a, n] :: exception + (ScalarFunction \<times> 'a FunctionData)) =
               Inr (bf', ListSortData d) \<and> null_order d = NULLS_FIRST \<and>
               (default_order_type config = ASCENDING \<longrightarrow> order_type d = DESCENDING) \<and>
               (default_order_type config = DESCENDING \<longrightarrow> order_type d = ASCENDING)))
       \<and> (IsFoldable n \<and> iequals (EvaluateScalar n) ''NULLS LAST'' \<longrightarrow>
            (\<exists>bf' d. (ListReverseSortBind config bf [a, n] :: exception + (ScalarFunction \<times> 'a FunctionData)) =
               Inr (bf', ListSortData d) \<and> null_order d = NULLS_LAST \<and>
               (default_order_type config = ASCENDING \<longrightarrow> order_type d = DESCENDING) \<and>
               (default_order_type config = DESCENDING \<longrightarrow> order_type d = ASCENDING)))"
proof -
  have nf: "GetNullOrder [a, n] 1 = Inr NULLS_FIRST"
    if "IsFoldable n \<and> iequals (EvaluateScalar n) ''NULLS FIRST''"
    using that unfolding GetNullOrder_def iequals_def toupper_tokens Let_def by auto
  have nl: "GetNullOrder [a, n] 1 = Inr NULLS_LAST"
    if "IsFoldable n \<and> iequals (EvaluateScalar n) ''NULLS LAST''"
    using that unfolding GetNullOrder_def iequals_def toupper_tokens Let_def by auto
  show ?thesis
    using assms nf nl
    by (auto simp add: ListNormalSortBind_def ListReverseSortBind_def ListSortBind_def
        ListSortBindData_ctor_def Let_def)
qed

text \<open>
  The theorem under an ascending, nulls-first configuration and under a descending,
  nulls-last one: with one argument the defaults are bound, with \<open>nulls last\<close> supplied
  against a nulls-first default nulls are last, and with \<open>Nulls First\<close> supplied against a
  nulls-last default nulls are first.
\<close>

theorem bind_defaults_witness:
  "(\<exists>bf'. (ListNormalSortBind ex_config (ex_function 1) [ex_list_arg]
        :: exception + (ScalarFunction \<times> nat FunctionData)) =
      Inr (bf', ListSortData (ListSortBindData_ctor ASCENDING NULLS_FIRST (LIST INTEGER) INTEGER)))
   \<and> (\<exists>bf' d. (ListReverseSortBind ex_config (ex_function 1) [ex_list_arg]
        :: exception + (ScalarFunction \<times> nat FunctionData)) = Inr (bf', ListSortData d) \<and>
        null_order d = NULLS_FIRST \<and> order_type d = DESCENDING)
   \<and> (\<exists>bf' d. (ListReverseSortBind ex_config (ex_function 2) [ex_list_arg, ex_const ''nulls last'']
        :: exception + (ScalarFunction \<times> nat FunctionData)) = Inr (bf', ListSortData d) \<and>
        null_order d = NULLS_LAST \<and> order_type d = DESCENDING)
   \<and> (\<exists>bf' d. (ListReverseSortBind
          \<lparr>default_order_type = DESCENDING, default_null_order = NULLS_LAST\<rparr>
          (ex_function 1) [ex_list_arg]
        :: exception + (ScalarFunction \<times> nat FunctionData)) = Inr (bf', ListSortData d) \<and>
        null_order d = NULLS_LAST \<and> order_type d = ASCENDING)
   \<and> (\<exists>bf' d. (ListReverseSortBind
          \<lparr>default_order_type = DESCENDING, default_null_order = NULLS_LAST\<rparr>
          (ex_function 2) [ex_list_arg, ex_const ''Nulls First'']
        :: exception + (ScalarFunction \<times> nat FunctionData)) = Inr (bf', ListSortData d) \<and>
        null_order d = NULLS_FIRST \<and> order_type d = ASCENDING)"
  using bind_defaults [where ?'a = nat and config = ex_config and bf = "ex_function 1"
      and a = ex_list_arg and t = INTEGER]
    bind_defaults [where ?'a = nat and config = ex_config and bf = "ex_function 2"
      and a = ex_list_arg and t = INTEGER and n = "ex_const ''nulls last''"]
    bind_defaults [where ?'a = nat
      and config = "\<lparr>default_order_type = DESCENDING, default_null_order = NULLS_LAST\<rparr>"
      and bf = "ex_function 1" and a = ex_list_arg and t = INTEGER]
    bind_defaults [where ?'a = nat
      and config = "\<lparr>default_order_type = DESCENDING, default_null_order = NULLS_LAST\<rparr>"
      and bf = "ex_function 2" and a = ex_list_arg and t = INTEGER
      and n = "ex_const ''Nulls First''"]
  by (simp add: ex_function_def ex_list_arg_def ex_const_def ex_config_def iequals_def
      islower_def)

section \<open>Properties of the sort engine\<close>










lemma length_insert_row: "length (insert_row nodes x xs) = Suc (length xs)"
  by (induction xs) simp_all

lemma set_insert_row: "set (insert_row nodes x xs) = insert x (set xs)"
  by (induction xs) auto

lemma length_sort_rows: "length (sort_rows nodes xs) = length xs"
  by (induction xs) (simp_all add: sort_rows_def length_insert_row)

lemma set_sort_rows: "set (sort_rows nodes xs) = set xs"
  by (induction xs) (simp_all add: sort_rows_def set_insert_row)






section \<open>Properties of the key builder and the scan loop\<close>

lemma ucast_row_counter: "(ucast (of_nat i :: 32 word) :: 16 word) = of_nat i"
proof -
  have "take_bit 16 (take_bit 32 i) = take_bit 16 i"
    by (simp add: take_bit_take_bit)
  then show ?thesis
    by (simp add: ucast_eq unsigned_of_nat word_of_nat_eq_iff)
qed

lemma SinkDataChunk_rows:
  "SinkDataChunk child sl n pv l lid =
     (l @ map (\<lambda>k. (lid k, GetValue (Slice child sl) k, pv k)) [0..<n], True)"
  by (simp add: SinkDataChunk_def SinkChunk_def Let_def zip_map_map zip_same_conv_map)

lemma element_step_emitted:
  "emitted child (element_step vsize child e i c s) =
     emitted child s @ [(of_nat i, cv_data child ! cv_sel child (cv_sel child (offset e + c)),
                         incr_payload_count s)]"
  by (simp add: element_step_def Let_def SinkDataChunk_rows ucast_row_counter emitted_def
      buffer_rows_def GetValue_def Slice_def)

lemma element_step_fields:
  "incr_payload_count (element_step vsize child e i c s) = incr_payload_count s + 1"
  "result (element_step vsize child e i c s) = result s"
  "masks (element_step vsize child e i c s) = masks s"
  "0 < offset_lists_indices (element_step vsize child e i c s)"
  "data_to_sort (element_step vsize child e i c s) \<longleftrightarrow> data_to_sort s \<or> offset_lists_indices s = vsize"
  by (simp_all add: element_step_def Let_def SinkDataChunk_rows)

lemma fold_element_step:
  "emitted child (fold (element_step vsize child e i) [0..<n] s) =
     emitted child s @ map (\<lambda>c. (of_nat i, cv_data child ! cv_sel child (cv_sel child (offset e + c)),
                                incr_payload_count s + of_nat c)) [0..<n]
   \<and> incr_payload_count (fold (element_step vsize child e i) [0..<n] s) = incr_payload_count s + of_nat n
   \<and> result (fold (element_step vsize child e i) [0..<n] s) = result s
   \<and> masks (fold (element_step vsize child e i) [0..<n] s) = masks s"
  by (induction n) (simp_all add: element_step_emitted element_step_fields)

lemmas fold_element_step_emitted = fold_element_step [THEN conjunct1]

lemmas fold_element_step_incr = fold_element_step [THEN conjunct2, THEN conjunct1]

lemmas fold_element_step_result = fold_element_step [THEN conjunct2, THEN conjunct2, THEN conjunct1]

lemmas fold_element_step_masks = fold_element_step [THEN conjunct2, THEN conjunct2, THEN conjunct2]

lemma row_step_emitted:
  "emitted child (row_step vsize lsel entries lv child i s) =
     emitted child s @
       (if RowIsValid (masks s) lv (lsel i) then row_triples child (entries ! lsel i) i (incr_payload_count s)
        else [])"
  "incr_payload_count (row_step vsize lsel entries lv child i s) =
     incr_payload_count s +
       (if RowIsValid (masks s) lv (lsel i) then of_nat (length_e (entries ! lsel i)) else 0)"
  by (simp_all add: row_step_def Let_def fold_element_step row_triples_def split: prod.splits)
     (simp_all add: emitted_def buffer_rows_def)

lemma masks_kept_RowIsValid:
  "masks_kept ms0 lv s \<Longrightarrow> RowIsValid (masks s) lv x = RowIsValid ms0 lv x"
  by (simp add: masks_kept_def RowIsValid_def split: option.splits)

lemma masks_kept_row_step:
  assumes "masks_kept ms0 lv s"
  shows "masks_kept ms0 lv (row_step vsize lsel entries lv child i s)"
proof (cases "RowIsValid (masks s) lv (lsel i)")
  case True
  then show ?thesis
    using assms
    by (simp add: row_step_def Let_def masks_kept_def fold_element_step_result
        fold_element_step_masks split: option.splits)
next
  case False
  then show ?thesis
    using assms
    by (auto simp add: row_step_def Let_def masks_kept_def SetInvalid_def nth_append
        split: option.splits)
qed

lemma keys_row_triples:
  "map (\<lambda>(g, e, p). (g, e)) (row_triples child e i p0) =
     map (\<lambda>c. (of_nat i, cv_data child ! cv_sel child (cv_sel child (offset e + c)))) [0..<length_e e]"
  by (simp add: row_triples_def)

lemma fold_row_step_keys:
  assumes "masks_kept ms0 lv s"
  shows "masks_kept ms0 lv (fold (row_step vsize lsel entries lv child) [0..<count] s)
     \<and> map (\<lambda>(g, e, p). (g, e)) (emitted child (fold (row_step vsize lsel entries lv child) [0..<count] s)) =
         map (\<lambda>(g, e, p). (g, e)) (emitted child s) @ expected_keys child lsel entries lv ms0 count"
proof (induction count)
  case 0
  then show ?case using assms by (simp add: expected_keys_def)
next
  case (Suc count)
  then show ?case
    by (simp add: masks_kept_row_step row_step_emitted masks_kept_RowIsValid [of ms0]
        keys_row_triples expected_keys_def)
qed

lemma payload_row_triples:
  "map (\<lambda>(g, e, p). p) (row_triples child e i (of_nat L)) = map of_nat [L..<L + length_e e]"
proof -
  have "map (\<lambda>c. (of_nat L :: 32 word) + of_nat c) [0..<n] = map of_nat [L..<L + n]" for n
    by (induction n) simp_all
  then show ?thesis by (simp add: row_triples_def comp_def)
qed

lemma length_row_triples: "length (row_triples child e i p0) = length_e e"
  by (simp add: row_triples_def)

lemma numbered_row_step:
  assumes "numbered child s"
  shows "numbered child (row_step vsize lsel entries lv child i s)"
proof -
  have split: "[0..<L + n] = [0..<L] @ [L..<L + n]" for L n :: nat
    by (metis upt_add_eq_append zero_le)
  show ?thesis
    using assms
    by (simp add: numbered_def row_step_emitted payload_row_triples length_row_triples split)
qed

lemma numbered_fold_row_step:
  "numbered child s \<Longrightarrow> numbered child (fold (row_step vsize lsel entries lv child) [0..<count] s)"
  by (induction count) (simp_all add: numbered_row_step)

lemma sink_state_element_step: "sink_state child (element_step vsize child e i c s)"
  using element_step_fields(4) [of vsize child e i c s]
  by (simp add: sink_state_def element_step_emitted)

lemma sink_state_row_step:
  assumes "sink_state child s"
  shows "sink_state child (row_step vsize lsel entries lv child i s)"
proof (cases "RowIsValid (masks s) lv (lsel i) \<and> length_e (entries ! lsel i) \<noteq> 0")
  case True
  then obtain n where n: "length_e (entries ! lsel i) = Suc n"
    by (cases "length_e (entries ! lsel i)") simp_all
  show ?thesis
    using True by (simp add: row_step_def Let_def n sink_state_element_step)
next
  case False
  then show ?thesis
    using assms
    by (auto simp add: row_step_def Let_def sink_state_def emitted_def buffer_rows_def
        split: prod.splits)
qed

lemma sink_state_fold_row_step:
  "sink_state child s \<Longrightarrow> sink_state child (fold (row_step vsize lsel entries lv child) [0..<count] s)"
  by (induction count) (simp_all add: sink_state_row_step)

lemma key_builder_row_loop:
  "key_builder vsize count lists' result_p mem =
     (let s = row_loop vsize count lists' result_p mem in
      if offset_lists_indices s \<noteq> 0 then
        s\<lparr>local_sort_state := emitted (child_vectors mem ! vec_auxiliary lists') s,
          data_to_sort := True\<rparr>
      else s)"
  by (simp add: key_builder_def row_loop_def Let_def SinkDataChunk_rows emitted_def
      buffer_rows_def)

lemma row_loop_invariants:
  "numbered (child_vectors mem ! vec_auxiliary lists') (row_loop vsize count lists' result_p mem)"
  "sink_state (child_vectors mem ! vec_auxiliary lists') (row_loop vsize count lists' result_p mem)"
  unfolding row_loop_def
  by (rule numbered_fold_row_step sink_state_fold_row_step;
      simp add: numbered_def sink_state_def emitted_def buffer_rows_def)+

lemma key_builder_local:
  "local_sort_state (key_builder vsize count lists' result_p mem) =
     emitted (child_vectors mem ! vec_auxiliary lists') (row_loop vsize count lists' result_p mem)"
  using row_loop_invariants(2) [of mem lists' vsize count result_p]
  by (simp add: key_builder_row_loop Let_def sink_state_def emitted_def buffer_rows_def)

lemma key_builder_fields:
  "masks (key_builder vsize count lists' result_p mem) = masks (row_loop vsize count lists' result_p mem)"
  "result (key_builder vsize count lists' result_p mem) = result (row_loop vsize count lists' result_p mem)"
  "incr_payload_count (key_builder vsize count lists' result_p mem) =
     incr_payload_count (row_loop vsize count lists' result_p mem)"
  by (simp_all add: key_builder_row_loop Let_def)

lemma key_builder_data_to_sort:
  "data_to_sort (key_builder vsize count lists' result_p mem) \<longleftrightarrow>
     local_sort_state (key_builder vsize count lists' result_p mem) \<noteq> []"
  using row_loop_invariants(2) [of mem lists' vsize count result_p]
  by (auto simp add: key_builder_row_loop Let_def sink_state_def emitted_def buffer_rows_def)

lemma key_builder_count:
  "incr_payload_count (key_builder vsize count lists' result_p mem) =
     of_nat (length (local_sort_state (key_builder vsize count lists' result_p mem)))"
  using row_loop_invariants(1) [of mem lists' vsize count result_p]
  by (simp add: key_builder_local key_builder_fields numbered_def)


lemma separate_masks_kept:
  "separate_masks (validity_masks mem) lists' result_p \<Longrightarrow>
   masks_kept (validity_masks mem) (vec_validity lists')
     \<lparr>result = result_p, masks = validity_masks mem, local_sort_state = [],
      sel = (\<lambda>_. 0), lists_indices_data = (\<lambda>_. 0),
      payload_vector_data = (\<lambda>_. 0), offset_lists_indices = 0,
      incr_payload_count = 0, data_to_sort = False\<rparr>"
  by (simp add: separate_masks_def masks_kept_def split: option.splits)

lemma masks_kept_cong:
  "masks s' = masks s \<Longrightarrow> result s' = result s \<Longrightarrow> masks_kept ms0 lv s' = masks_kept ms0 lv s"
  by (simp add: masks_kept_def split: option.splits)

lemma key_builder_keys:
  assumes "separate_masks (validity_masks mem) lists' result_p"
  shows "map (\<lambda>(g, e, p). (g, e)) (local_sort_state (key_builder vsize count lists' result_p mem)) =
           expected_keys (child_vectors mem ! vec_auxiliary lists') (Orrify_sel lists')
             (list_buffers mem ! vec_data lists') (vec_validity lists') (validity_masks mem) count"
    and "masks_kept (validity_masks mem) (vec_validity lists')
           (key_builder vsize count lists' result_p mem)"
proof -
  note f = fold_row_step_keys [OF separate_masks_kept [OF assms], of vsize "Orrify_sel lists'"
      "list_buffers mem ! vec_data lists'" "child_vectors mem ! vec_auxiliary lists'" count,
      folded row_loop_def]
  show "map (\<lambda>(g, e, p). (g, e)) (local_sort_state (key_builder vsize count lists' result_p mem)) =
           expected_keys (child_vectors mem ! vec_auxiliary lists') (Orrify_sel lists')
             (list_buffers mem ! vec_data lists') (vec_validity lists') (validity_masks mem) count"
    using f [THEN conjunct2] by (simp add: key_builder_local emitted_def buffer_rows_def)
  show "masks_kept (validity_masks mem) (vec_validity lists')
           (key_builder vsize count lists' result_p mem)"
    using f [THEN conjunct1]
    by (simp add: masks_kept_cong [OF key_builder_fields(1) key_builder_fields(2)])
qed

lemma write_chunk:
  "fold (\<lambda>i (sv, idx). (sv(idx := unat (rd ! i)), idx + 1)) [0..<n] (sv, idx) =
     ((\<lambda>k. if idx \<le> k \<and> k < idx + n then unat (rd ! (k - idx)) else sv k), idx + n)"
  by (induction n) (auto simp add: fun_eq_iff)

lemma drain_all:
  "0 < vsize \<Longrightarrow>
   drain vsize scanner sv idx =
     ((\<lambda>k. if idx \<le> k \<and> k < idx + length scanner then unat (scanner ! (k - idx)) else sv k),
      idx + length scanner)"
proof (induction vsize scanner sv idx rule: drain.induct)
  case (1 vsize scanner sel_sorted sel_sorted_idx)
  show ?case
  proof (cases "scanner = []")
    case True
    then show ?thesis
      by (subst drain.simps) (auto simp add: Scan_def fun_eq_iff)
  next
    case False
    define chunk where "chunk = fst (Scan vsize scanner)"
    define rest where "rest = snd (Scan vsize scanner)"
    define sv1 where "sv1 = (\<lambda>k. if sel_sorted_idx \<le> k \<and> k < sel_sorted_idx + length chunk
                      then unat (chunk ! (k - sel_sorted_idx)) else sel_sorted k)"
    have scanner: "scanner = chunk @ rest"
      by (simp add: chunk_def rest_def Scan_def)
    have ne: "length (fst (Scan vsize scanner)) \<noteq> 0"
      using False "1.prems" by (simp add: Scan_def)
    have w: "fold (\<lambda>i (sv, idx). (sv(idx := unat (chunk ! i)), idx + 1)) [0..<length chunk]
               (sel_sorted, sel_sorted_idx) = (sv1, sel_sorted_idx + length chunk)"
      unfolding sv1_def by (rule write_chunk)
    have ih: "drain vsize rest sv1 (sel_sorted_idx + length chunk) =
        ((\<lambda>k. if sel_sorted_idx + length chunk \<le> k \<and>
                  k < sel_sorted_idx + length chunk + length rest
               then unat (rest ! (k - (sel_sorted_idx + length chunk))) else sv1 k),
         sel_sorted_idx + length chunk + length rest)"
      unfolding rest_def chunk_def
      by (rule "1.IH" [OF ne refl refl refl w [unfolded chunk_def, symmetric] "1.prems"])
    have fn: "(\<lambda>k. if sel_sorted_idx + length chunk \<le> k \<and>
                  k < sel_sorted_idx + length chunk + length rest
               then unat (rest ! (k - (sel_sorted_idx + length chunk))) else sv1 k) =
          (\<lambda>k. if sel_sorted_idx \<le> k \<and> k < sel_sorted_idx + length scanner
               then unat (scanner ! (k - sel_sorted_idx)) else sel_sorted k)"
      by (auto simp add: fun_eq_iff sv1_def scanner nth_append diff_diff_eq)
    have "drain vsize scanner sel_sorted sel_sorted_idx =
            drain vsize rest sv1 (sel_sorted_idx + length chunk)"
      using ne w by (subst drain.simps) (simp add: Let_def chunk_def rest_def)
    then show ?thesis
      using ih fn by (simp add: scanner)
  qed
qed

section \<open>The scan loop and the permutation\<close>

lemma length_expected_keys:
  "length (expected_keys child lsel entries lv ms0 count) =
     sum_list (map (\<lambda>i. if RowIsValid ms0 lv (lsel i) then length_e (entries ! lsel i) else 0)
       [0..<count])"
  by (simp add: expected_keys_def length_concat comp_def if_distrib cong: if_cong)

lemma key_builder_length:
  assumes "separate_masks (validity_masks mem) lists' result_p"
  shows "length (local_sort_state (key_builder vsize count lists' result_p mem)) =
     sum_list (map (\<lambda>i. if RowIsValid (validity_masks mem) (vec_validity lists') (Orrify_sel lists' i)
                          then length_e ((list_buffers mem ! vec_data lists') ! Orrify_sel lists' i)
                          else 0) [0..<count])"
  using arg_cong [OF key_builder_keys(1) [OF assms, of vsize count], of length]
  by (simp add: length_expected_keys)

lemma drain_from_start:
  "0 < vsize \<Longrightarrow>
   drain vsize scanner (\<lambda>_. 0) 0 =
     ((\<lambda>k. if k < length scanner then unat (scanner ! k) else 0), length scanner)"
  by (simp add: drain_all cong: if_cong)

lemma length_PayloadScanner:
  "length (PayloadScanner (PrepareMergePhase (AddLocalState
      \<lparr>gs_orders = os, gs_payload_layout = pl, sorted_blocks = []\<rparr> sunk))) = length sunk"
  by (simp add: PayloadScanner_def PrepareMergePhase_def AddLocalState_def length_sort_rows)

lemma ListSortFunction_sorting:
  assumes "0 < vsize" "1 \<le> ColumnCount args" "ColumnCount args \<le> 3"
      and "vec_type (dc_data args ! 0) \<noteq> SQLNULL"
      and "s = key_builder vsize (dc_size args) (dc_data args ! 0)
                 (result_p\<lparr>vector_type := FLAT_VECTOR\<rparr>) mem"
      and "g = PrepareMergePhase (AddLocalState
                 \<lparr>gs_orders = orders info, gs_payload_layout = payload_layout info,
                  sorted_blocks = []\<rparr> (local_sort_state s))"
      and "data_to_sort s"
  shows "ListSortFunction vsize args info result_p mem =
     (if length (local_sort_state s) \<noteq> unat (incr_payload_count s) then Inl AssertionFailure
      else Inr (mem\<lparr>validity_masks := masks s,
                   child_vectors := (child_vectors mem)
                     [vec_auxiliary (dc_data args ! 0) :=
                        Normalify (Slice (child_vectors mem ! vec_auxiliary (dc_data args ! 0))
                          (\<lambda>k. if k < length (PayloadScanner g) then unat (PayloadScanner g ! k) else 0))
                          (length (local_sort_state s))]\<rparr>,
                info\<lparr>global_sort_state := Some g\<rparr>,
                dc_data args ! 0))"
  using assms(1-4,7) length_PayloadScanner [of "orders info" "payload_layout info" "local_sort_state s"]
  unfolding ListSortFunction_def assms(5) [symmetric] Let_def assms(6) [symmetric]
  by (simp add: drain_from_start)

lemma unat_count_32: "n < 2 ^ 32 \<Longrightarrow> unat (of_nat n :: 32 word) = n"
  by (simp add: unat_of_nat)

lemmas exec_simps = key_builder_def row_step_def element_step_def SinkDataChunk_def SinkChunk_def
  RowIsValid_def SetInvalid_def Orrify_sel_def GetValue_def Slice_def Let_def

lemma ex_key_builder:
  "local_sort_state (key_builder 4 4 ex_lists (ex_result\<lparr>vector_type := FLAT_VECTOR\<rparr>) ex_mem) =
     [(0, Some 3, 0), (0, Some 1, 1), (0, Some 2, 2), (3, Some 5, 3), (3, None, 4), (3, Some 1, 5)]"
  "data_to_sort (key_builder 4 4 ex_lists (ex_result\<lparr>vector_type := FLAT_VECTOR\<rparr>) ex_mem)"
  "incr_payload_count (key_builder 4 4 ex_lists (ex_result\<lparr>vector_type := FLAT_VECTOR\<rparr>) ex_mem) = 6"
  by (simp_all add: exec_simps ex_lists_def ex_result_def ex_mem_def upt_rec)

lemma ListSortFunction_engine:
  assumes "1 \<le> ColumnCount args" "ColumnCount args \<le> 3"
      and "vec_type (dc_data args ! 0) \<noteq> SQLNULL"
      and "ListSortFunction vsize args info result_p mem = Inr (mem', info', res)"
  shows "global_sort_state info' = Some
     (if data_to_sort (key_builder vsize (dc_size args) (dc_data args ! 0)
                         (result_p\<lparr>vector_type := FLAT_VECTOR\<rparr>) mem)
      then PrepareMergePhase (AddLocalState
             \<lparr>gs_orders = orders info, gs_payload_layout = payload_layout info, sorted_blocks = []\<rparr>
             (local_sort_state (key_builder vsize (dc_size args) (dc_data args ! 0)
                         (result_p\<lparr>vector_type := FLAT_VECTOR\<rparr>) mem)))
      else \<lparr>gs_orders = orders info, gs_payload_layout = payload_layout info, sorted_blocks = []\<rparr>)"
  using assms
  by (auto simp add: ListSortFunction_def Let_def split: prod.splits if_splits)


lemma ListSortFunction_returns:
  assumes "0 < vsize" "1 \<le> ColumnCount args" "ColumnCount args \<le> 3"
      and "vec_type (dc_data args ! 0) \<noteq> SQLNULL"
      and "data_to_sort (key_builder vsize (dc_size args) (dc_data args ! 0)
                 (result_p\<lparr>vector_type := FLAT_VECTOR\<rparr>) mem)"
      and "length (local_sort_state (key_builder vsize (dc_size args) (dc_data args ! 0)
                 (result_p\<lparr>vector_type := FLAT_VECTOR\<rparr>) mem)) =
           unat (incr_payload_count (key_builder vsize (dc_size args) (dc_data args ! 0)
                 (result_p\<lparr>vector_type := FLAT_VECTOR\<rparr>) mem))"
  shows "\<exists>mem' info'. ListSortFunction vsize args info result_p mem = Inr (mem', info', dc_data args ! 0)"
  using ListSortFunction_sorting [OF assms(1-4) refl refl assms(5), of info] assms(6)
  by simp


lemma engine_holds_sunk:
  fixes mem :: "('a::linorder) memory"
  assumes "1 \<le> ColumnCount args" "ColumnCount args \<le> 3"
      and "vec_type (dc_data args ! 0) \<noteq> SQLNULL"
      and "ListSortFunction vsize args info result_p mem = Inr (mem', info', res)"
  shows "\<exists>g. global_sort_state info' = Some g
     \<and> length (concat (sorted_blocks g)) =
         length (local_sort_state (key_builder vsize (dc_size args) (dc_data args ! 0)
                   (result_p\<lparr>vector_type := FLAT_VECTOR\<rparr>) mem))
     \<and> set (concat (sorted_blocks g)) =
         set (local_sort_state (key_builder vsize (dc_size args) (dc_data args ! 0)
                   (result_p\<lparr>vector_type := FLAT_VECTOR\<rparr>) mem))"
proof (cases "data_to_sort (key_builder vsize (dc_size args) (dc_data args ! 0)
                   (result_p\<lparr>vector_type := FLAT_VECTOR\<rparr>) mem)")
  case True
  then show ?thesis
    using ListSortFunction_engine [OF assms]
    by (simp add: PrepareMergePhase_def AddLocalState_def length_sort_rows set_sort_rows)
next
  case False
  then have "local_sort_state (key_builder vsize (dc_size args) (dc_data args ! 0)
                   (result_p\<lparr>vector_type := FLAT_VECTOR\<rparr>) mem) = []"
    by (simp add: key_builder_data_to_sort)
  then show ?thesis
    using ListSortFunction_engine [OF assms] False by simp
qed

text \<open>
  With a positive standard vector size and fewer than \<open>2^32\<close> sunk triples, draining the
  scan writes the payloads to the permutation in the order the scanner emits them; on
  completion the permutation's length equals the number of triples sunk and equals
  \<open>incr_payload_count\<close>, and the function returns.
\<close>

lemma scan_fills_permutation:
  fixes mem :: "('a::linorder) memory"
  assumes "0 < vsize" "1 \<le> ColumnCount args" "ColumnCount args \<le> 3"
      and "vec_type (dc_data args ! 0) \<noteq> SQLNULL"
      and "data_to_sort (key_builder vsize (dc_size args) (dc_data args ! 0)
             (result_p\<lparr>vector_type := FLAT_VECTOR\<rparr>) mem)"
      and "length (local_sort_state (key_builder vsize (dc_size args) (dc_data args ! 0)
             (result_p\<lparr>vector_type := FLAT_VECTOR\<rparr>) mem)) < 2 ^ 32"
  shows "let s = key_builder vsize (dc_size args) (dc_data args ! 0)
                   (result_p\<lparr>vector_type := FLAT_VECTOR\<rparr>) mem;
             g = PrepareMergePhase (AddLocalState
                   \<lparr>gs_orders = orders info, gs_payload_layout = payload_layout info,
                    sorted_blocks = []\<rparr> (local_sort_state s))
         in \<exists>sel_sorted sel_sorted_idx.
              drain vsize (PayloadScanner g) (\<lambda>_. 0) 0 = (sel_sorted, sel_sorted_idx)
            \<and> map sel_sorted [0..<sel_sorted_idx] = map unat (PayloadScanner g)
            \<and> sel_sorted_idx = length (local_sort_state s)
            \<and> sel_sorted_idx = unat (incr_payload_count s)
            \<and> length (cv_data (Normalify
                  (Slice (child_vectors mem ! vec_auxiliary (dc_data args ! 0)) sel_sorted)
                  sel_sorted_idx)) = length (local_sort_state s)
            \<and> ListSortFunction vsize args info result_p mem =
                Inr (mem\<lparr>validity_masks := masks s,
                         child_vectors := (child_vectors mem)
                           [vec_auxiliary (dc_data args ! 0) :=
                              Normalify (Slice (child_vectors mem ! vec_auxiliary (dc_data args ! 0))
                                sel_sorted) sel_sorted_idx]\<rparr>,
                     info\<lparr>global_sort_state := Some g\<rparr>,
                     dc_data args ! 0)"
proof -
  define s where "s = key_builder vsize (dc_size args) (dc_data args ! 0)
                   (result_p\<lparr>vector_type := FLAT_VECTOR\<rparr>) mem"
  define g where "g = PrepareMergePhase (AddLocalState
                   \<lparr>gs_orders = orders info, gs_payload_layout = payload_layout info,
                    sorted_blocks = []\<rparr> (local_sort_state s))"
  define sv where "sv = (\<lambda>k. if k < length (PayloadScanner g) then unat (PayloadScanner g ! k) else 0)"
  have len: "length (PayloadScanner g) = length (local_sort_state s)"
    unfolding g_def by (rule length_PayloadScanner)
  have d: "drain vsize (PayloadScanner g) (\<lambda>_. 0) 0 = (sv, length (local_sort_state s))"
    using assms(1) by (simp add: drain_from_start sv_def len)
  have m: "map sv [0..<length (local_sort_state s)] = map unat (PayloadScanner g)"
    by (rule nth_equalityI) (simp_all add: sv_def len)
  have c: "length (local_sort_state s) = unat (incr_payload_count s)"
    using assms(6) unfolding s_def [symmetric]
    by (simp add: s_def key_builder_count unat_count_32)
  have f: "ListSortFunction vsize args info result_p mem =
        Inr (mem\<lparr>validity_masks := masks s,
                 child_vectors := (child_vectors mem)
                   [vec_auxiliary (dc_data args ! 0) :=
                      Normalify (Slice (child_vectors mem ! vec_auxiliary (dc_data args ! 0)) sv)
                        (length (local_sort_state s))]\<rparr>,
             info\<lparr>global_sort_state := Some g\<rparr>,
             dc_data args ! 0)"
    using ListSortFunction_sorting [OF assms(1-4) s_def g_def, of] assms(5) c
    by (simp add: s_def [symmetric] sv_def)
  have n: "length (cv_data (Normalify
              (Slice (child_vectors mem ! vec_auxiliary (dc_data args ! 0)) sv)
              (length (local_sort_state s)))) = length (local_sort_state s)"
    by (simp add: Normalify_def)
  show ?thesis
    unfolding Let_def s_def [symmetric] g_def [symmetric]
    using d m c n f by blast
qed

text \<open>
  Claim C9 against the code, evaluated on a batch of one valid list of \<open>2^32\<close> elements:
  \<open>2^32\<close> triples are sunk and \<open>incr_payload_count\<close>, a 32-bit counter, has wrapped to
  0, which is the capacity \<^verbatim>\<open>sel_sorted\<close> is created with (line 199). The scan loop writes all
  \<open>2^32\<close> payloads, so \<open>sel_sorted_idx\<close> ends at \<open>2^32\<close>, and the assertion of line 224
  that it equals \<open>incr_payload_count\<close> fails. (The selection vector of the model has no
  capacity; the number of entries written is compared with the capacity here.)
\<close>

theorem scan_assertion_fails:
  "data_to_sort (key_builder 1024 1 huge_lists (ex_result\<lparr>vector_type := FLAT_VECTOR\<rparr>) huge_mem)
   \<and> length (local_sort_state (key_builder 1024 1 huge_lists
         (ex_result\<lparr>vector_type := FLAT_VECTOR\<rparr>) huge_mem)) = 4294967296
   \<and> incr_payload_count (key_builder 1024 1 huge_lists
         (ex_result\<lparr>vector_type := FLAT_VECTOR\<rparr>) huge_mem) = 0
   \<and> snd (drain 1024 (PayloadScanner (PrepareMergePhase (AddLocalState
            \<lparr>gs_orders = orders (ListSortBindData_ctor ASCENDING NULLS_LAST (LIST INTEGER) INTEGER
                :: int ListSortBindData),
             gs_payload_layout = [UINTEGER], sorted_blocks = []\<rparr>
            (local_sort_state (key_builder 1024 1 huge_lists
               (ex_result\<lparr>vector_type := FLAT_VECTOR\<rparr>) huge_mem))))) (\<lambda>_. 0) 0) = 4294967296
   \<and> ListSortFunction 1024 huge_args
        (ListSortBindData_ctor ASCENDING NULLS_LAST (LIST INTEGER) INTEGER) ex_result huge_mem =
      Inl AssertionFailure"
proof -
  let ?info = "ListSortBindData_ctor ASCENDING NULLS_LAST (LIST INTEGER) INTEGER :: int ListSortBindData"
  define s where "s = key_builder 1024 (dc_size huge_args) (dc_data huge_args ! 0)
                   (ex_result\<lparr>vector_type := FLAT_VECTOR\<rparr>) huge_mem"
  define g where "g = PrepareMergePhase (AddLocalState
                   \<lparr>gs_orders = orders ?info, gs_payload_layout = payload_layout ?info,
                    sorted_blocks = []\<rparr> (local_sort_state s))"
  have s: "s = key_builder 1024 1 huge_lists (ex_result\<lparr>vector_type := FLAT_VECTOR\<rparr>) huge_mem"
    by (simp add: s_def huge_args_def)
  have pl: "payload_layout ?info = [UINTEGER]"
    by (simp add: ListSortBindData_ctor_def)
  have sep: "separate_masks (validity_masks huge_mem) (dc_data huge_args ! 0)
               (ex_result\<lparr>vector_type := FLAT_VECTOR\<rparr>)"
    by (simp add: separate_masks_def huge_args_def huge_lists_def)
  have len: "length (local_sort_state s) = 4294967296"
    unfolding s_def key_builder_length [OF sep]
    by (simp add: huge_args_def huge_lists_def huge_mem_def RowIsValid_def Orrify_sel_def)
  then have nonempty: "local_sort_state s \<noteq> []"
    by auto
  have dts: "data_to_sort s"
    unfolding s_def key_builder_data_to_sort using nonempty by (simp add: s_def)
  have count: "incr_payload_count s = 0"
    unfolding s_def key_builder_count using len by (simp add: s_def)
  then have incr: "unat (incr_payload_count s) = 0"
    by simp
  have written: "snd (drain 1024 (PayloadScanner g) (\<lambda>_. 0) 0) = 4294967296"
    unfolding g_def by (simp add: drain_from_start length_PayloadScanner len)
  have "ListSortFunction 1024 huge_args ?info ex_result huge_mem =
      (if length (local_sort_state s) \<noteq> unat (incr_payload_count s) then Inl AssertionFailure
       else Inr (huge_mem\<lparr>validity_masks := masks s,
                   child_vectors := (child_vectors huge_mem)
                     [vec_auxiliary (dc_data huge_args ! 0) :=
                        Normalify (Slice (child_vectors huge_mem ! vec_auxiliary (dc_data huge_args ! 0))
                          (\<lambda>k. if k < length (PayloadScanner g) then unat (PayloadScanner g ! k) else 0))
                          (length (local_sort_state s))]\<rparr>,
                ?info\<lparr>global_sort_state := Some g\<rparr>,
                dc_data huge_args ! 0))"
    by (rule ListSortFunction_sorting [OF _ _ _ _ s_def g_def dts])
       (simp_all add: huge_args_def ColumnCount_def huge_lists_def)
  then have f: "ListSortFunction 1024 huge_args ?info ex_result huge_mem = Inl AssertionFailure"
    by (simp only: len incr) simp
  show ?thesis
    using dts len count written [unfolded g_def pl] f unfolding s by blast
qed

section \<open>The sort order of an invocation\<close>



section \<open>Group indices, payloads and the result vector\<close>

lemma groups_expected_keys:
  assumes "count \<le> 65536"
  shows "map (\<lambda>(g, e). unat g) (expected_keys child lsel entries lv ms0 count) =
     concat (map (\<lambda>i. if RowIsValid ms0 lv (lsel i) then replicate (length_e (entries ! lsel i)) i
                       else []) [0..<count])"
proof -
  have u: "unat (of_nat i :: 16 word) = i" if "i < count" for i
    using that assms by (simp add: unat_of_nat)
  show ?thesis
    unfolding expected_keys_def map_concat map_map
    by (rule arg_cong [where f = concat], rule map_cong)
       (auto simp add: u map_replicate_const comp_def)
qed

text \<open>
  Up to 65536 rows the narrowing of the row counter to 16 bits changes nothing: the group
  indices of the sunk triples, in emission order, are the indices of their owning rows, each
  valid row \<open>i\<close> contributing the index \<open>i\<close> once per element.
\<close>

lemma group_index_is_row:
  assumes "separate_masks (validity_masks mem) lists' result_p"
      and "count \<le> 65536"
  shows "map (\<lambda>(g, e, p). unat g) (local_sort_state (key_builder vsize count lists' result_p mem)) =
     concat (map (\<lambda>i. if RowIsValid (validity_masks mem) (vec_validity lists') (Orrify_sel lists' i)
                       then replicate (length_e ((list_buffers mem ! vec_data lists') ! Orrify_sel lists' i)) i
                       else []) [0..<count])"
proof -
  have "map (\<lambda>(g, e, p). unat g) (local_sort_state (key_builder vsize count lists' result_p mem)) =
        map (\<lambda>(g, e). unat g) (map (\<lambda>(g, e, p). (g, e))
          (local_sort_state (key_builder vsize count lists' result_p mem)))"
    by (simp add: comp_def case_prod_unfold)
  then show ?thesis
    by (simp only: key_builder_keys(1) [OF assms(1)] groups_expected_keys [OF assms(2)])
qed






text \<open>
  The function has no capacity check: whenever it fails, it fails an assertion.
\<close>

lemma only_assertion_failures:
  "ListSortFunction vsize args info result_p mem = Inl e \<Longrightarrow> e = AssertionFailure"
  by (auto simp add: ListSortFunction_def Let_def split: if_splits prod.splits)


text \<open>
  Claim C2 against the code, evaluated on that batch. The two elements stand at positions 2
  and 3 of the child buffer, and the key builder emits them with the payloads 0 and 1 (the
  running count). Replayed as indices into the child buffer, the sorted payloads \<open>[1, 0]\<close>
  gather the elements 10 and 20 of the other list, not 3 and 4.
\<close>

theorem payload_is_running_count:
  "local_sort_state (key_builder 1024 1 sliced_lists (ex_result\<lparr>vector_type := FLAT_VECTOR\<rparr>)
      sliced_mem) = [(0, Some 4, 0), (0, Some 3, 1)]
   \<and> ListSortFunction 1024 sliced_args
        (ListSortBindData_ctor ASCENDING NULLS_LAST (LIST INTEGER) INTEGER) ex_result sliced_mem =
      Inr (sliced_mem\<lparr>child_vectors := [\<lparr>cv_sel = (\<lambda>i. i), cv_data = [Some 10, Some 20]\<rparr>]\<rparr>,
           (ListSortBindData_ctor ASCENDING NULLS_LAST (LIST INTEGER) INTEGER)
             \<lparr>global_sort_state := Some \<lparr>gs_orders = orders (ListSortBindData_ctor ASCENDING
                  NULLS_LAST (LIST INTEGER) INTEGER :: int ListSortBindData),
                gs_payload_layout = [UINTEGER],
                sorted_blocks = [[(0, Some 3, 1), (0, Some 4, 0)]]\<rparr>\<rparr>,
           sliced_lists)"
proof -
  let ?info = "ListSortBindData_ctor ASCENDING NULLS_LAST (LIST INTEGER) INTEGER :: int ListSortBindData"
  define s where "s = key_builder 1024 (dc_size sliced_args) (dc_data sliced_args ! 0)
                   (ex_result\<lparr>vector_type := FLAT_VECTOR\<rparr>) sliced_mem"
  define g where "g = PrepareMergePhase (AddLocalState
                   \<lparr>gs_orders = orders ?info, gs_payload_layout = payload_layout ?info,
                    sorted_blocks = []\<rparr> (local_sort_state s))"
  have s: "s = key_builder 1024 1 sliced_lists (ex_result\<lparr>vector_type := FLAT_VECTOR\<rparr>) sliced_mem"
    by (simp add: s_def sliced_args_def)
  have kb: "local_sort_state s = [(0, Some 4, 0), (0, Some 3, 1)]" "data_to_sort s"
    "incr_payload_count s = 2" "masks s = []"
    unfolding s
    by (simp_all add: exec_simps sliced_lists_def sliced_mem_def ex_result_def upt_rec)
  have g: "g = \<lparr>gs_orders = orders ?info, gs_payload_layout = [UINTEGER],
                sorted_blocks = [[(0, Some 3, 1), (0, Some 4, 0)]]\<rparr>"
    unfolding g_def kb
    by (simp add: PrepareMergePhase_def AddLocalState_def ListSortBindData_ctor_def sort_rows_def
        row_le_def compare3_def)
  have "ListSortFunction 1024 sliced_args ?info ex_result sliced_mem =
      (if length (local_sort_state s) \<noteq> unat (incr_payload_count s) then Inl AssertionFailure
       else Inr (sliced_mem\<lparr>validity_masks := masks s,
                   child_vectors := (child_vectors sliced_mem)
                     [vec_auxiliary (dc_data sliced_args ! 0) :=
                        Normalify (Slice (child_vectors sliced_mem ! vec_auxiliary (dc_data sliced_args ! 0))
                          (\<lambda>k. if k < length (PayloadScanner g) then unat (PayloadScanner g ! k) else 0))
                          (length (local_sort_state s))]\<rparr>,
                ?info\<lparr>global_sort_state := Some g\<rparr>,
                dc_data sliced_args ! 0))"
    by (rule ListSortFunction_sorting [OF _ _ _ _ s_def g_def kb(2)])
       (simp_all add: sliced_args_def ColumnCount_def sliced_lists_def)
  then have "ListSortFunction 1024 sliced_args ?info ex_result sliced_mem =
      Inr (sliced_mem\<lparr>child_vectors := [\<lparr>cv_sel = (\<lambda>i. i), cv_data = [Some 10, Some 20]\<rparr>]\<rparr>,
           ?info\<lparr>global_sort_state := Some \<lparr>gs_orders = orders ?info,
                gs_payload_layout = [UINTEGER],
                sorted_blocks = [[(0, Some 3, 1), (0, Some 4, 0)]]\<rparr>\<rparr>,
           sliced_lists)"
    unfolding kb g
    by (simp add: sliced_args_def sliced_mem_def sliced_lists_def PayloadScanner_def Normalify_def
        Slice_def GetValue_def upt_rec)
  then show ?thesis
    using kb(1) unfolding s by simp
qed

lemma SetInvalid_marks:
  "(case p of None \<Rightarrow> True | Some a \<Rightarrow> a < length ms) \<Longrightarrow>
   \<not> RowIsValid (fst (SetInvalid ms p i)) (snd (SetInvalid ms p i)) i"
  by (simp add: SetInvalid_def RowIsValid_def split: option.splits)

lemma ListSortFunction_outcome:
  assumes "1 \<le> ColumnCount args" "ColumnCount args \<le> 3"
      and "vec_type (dc_data args ! 0) \<noteq> SQLNULL"
  shows "ListSortFunction vsize args info result_p mem = Inl AssertionFailure \<or>
     (\<exists>g. ListSortFunction vsize args info result_p mem =
        Inr (mem\<lparr>validity_masks := masks (key_builder vsize (dc_size args) (dc_data args ! 0)
                     (result_p\<lparr>vector_type := FLAT_VECTOR\<rparr>) mem)\<rparr>,
             info\<lparr>global_sort_state := Some g\<rparr>, dc_data args ! 0)) \<or>
     (\<exists>g sel_sorted n. ListSortFunction vsize args info result_p mem =
        Inr (mem\<lparr>validity_masks := masks (key_builder vsize (dc_size args) (dc_data args ! 0)
                     (result_p\<lparr>vector_type := FLAT_VECTOR\<rparr>) mem),
                 child_vectors := (child_vectors mem)
                   [vec_auxiliary (dc_data args ! 0) :=
                      Normalify (Slice (child_vectors mem ! vec_auxiliary (dc_data args ! 0))
                        sel_sorted) n]\<rparr>,
             info\<lparr>global_sort_state := Some g\<rparr>, dc_data args ! 0))"
  using assms
  by (auto simp add: ListSortFunction_def Let_def split: prod.splits)

lemma key_builder_RowIsValid:
  assumes "separate_masks (validity_masks mem) lists' result_p"
  shows "RowIsValid (masks (key_builder vsize count lists' result_p mem)) (vec_validity lists') x =
         RowIsValid (validity_masks mem) (vec_validity lists') x"
  using key_builder_keys(2) [OF assms, of vsize count]
  by (rule masks_kept_RowIsValid)

lemma ex_ListSortFunction:
  "ListSortFunction 4 ex_args
     (ListSortBindData_ctor ASCENDING NULLS_LAST (LIST INTEGER) INTEGER :: int ListSortBindData)
     ex_result ex_mem \<noteq> Inl AssertionFailure"
proof -
  let ?info = "ListSortBindData_ctor ASCENDING NULLS_LAST (LIST INTEGER) INTEGER :: int ListSortBindData"
  define s where "s = key_builder 4 (dc_size ex_args) (dc_data ex_args ! 0)
                   (ex_result\<lparr>vector_type := FLAT_VECTOR\<rparr>) ex_mem"
  define g where "g = PrepareMergePhase (AddLocalState
                   \<lparr>gs_orders = orders ?info, gs_payload_layout = payload_layout ?info,
                    sorted_blocks = []\<rparr> (local_sort_state s))"
  have s: "s = key_builder 4 4 ex_lists (ex_result\<lparr>vector_type := FLAT_VECTOR\<rparr>) ex_mem"
    by (simp add: s_def ex_args_def)
  have kb: "data_to_sort s" "length (local_sort_state s) = unat (incr_payload_count s)"
    unfolding s by (simp_all add: ex_key_builder)
  have "ListSortFunction 4 ex_args ?info ex_result ex_mem =
      (if length (local_sort_state s) \<noteq> unat (incr_payload_count s) then Inl AssertionFailure
       else Inr (ex_mem\<lparr>validity_masks := masks s,
                   child_vectors := (child_vectors ex_mem)
                     [vec_auxiliary (dc_data ex_args ! 0) :=
                        Normalify (Slice (child_vectors ex_mem ! vec_auxiliary (dc_data ex_args ! 0))
                          (\<lambda>k. if k < length (PayloadScanner g) then unat (PayloadScanner g ! k) else 0))
                          (length (local_sort_state s))]\<rparr>,
                ?info\<lparr>global_sort_state := Some g\<rparr>,
                dc_data ex_args ! 0))"
    by (rule ListSortFunction_sorting [OF _ _ _ _ s_def g_def kb(1)])
       (simp_all add: ex_args_def ColumnCount_def ex_lists_def)
  then show ?thesis
    using kb(2) by simp
qed

text \<open>
  Claim C10. For every batch whose list type is not SQLNULL, whenever the function returns,
  the result vector is the handle of the input lists vector: the same list-entry buffer,
  the same validity mask and the same child vector. The list-entry buffers of the memory
  are unchanged (none is written, none is allocated), the validity of the input's rows is
  unchanged, and the only change to the child vectors is that the input's child vector is
  sliced and flattened at its own address, or left as it is.
\<close>

theorem result_references_input:
  assumes "1 \<le> ColumnCount args" "ColumnCount args \<le> 3"
      and "vec_type (dc_data args ! 0) \<noteq> SQLNULL"
      and "ListSortFunction vsize args info result_p mem = Inr (mem', info', res)"
  shows "res = dc_data args ! 0
       \<and> list_buffers mem' = list_buffers mem
       \<and> (child_vectors mem' = child_vectors mem \<or>
          (\<exists>sel_sorted n. child_vectors mem' = (child_vectors mem)
             [vec_auxiliary (dc_data args ! 0) :=
                Normalify (Slice (child_vectors mem ! vec_auxiliary (dc_data args ! 0)) sel_sorted) n]))
       \<and> (separate_masks (validity_masks mem) (dc_data args ! 0)
             (result_p\<lparr>vector_type := FLAT_VECTOR\<rparr>) \<longrightarrow>
           (\<forall>x. RowIsValid (validity_masks mem') (vec_validity res) x =
                RowIsValid (validity_masks mem) (vec_validity (dc_data args ! 0)) x))"
proof -
  let ?s = "key_builder vsize (dc_size args) (dc_data args ! 0)
              (result_p\<lparr>vector_type := FLAT_VECTOR\<rparr>) mem"
  let ?c = "child_vectors mem' = child_vectors mem \<or>
          (\<exists>sel_sorted n. child_vectors mem' = (child_vectors mem)
             [vec_auxiliary (dc_data args ! 0) :=
                Normalify (Slice (child_vectors mem ! vec_auxiliary (dc_data args ! 0)) sel_sorted) n])"
  have "validity_masks mem' = masks ?s \<and> res = dc_data args ! 0 \<and>
        list_buffers mem' = list_buffers mem \<and> ?c"
    using ListSortFunction_outcome [OF assms(1-3), of vsize info result_p mem]
  proof (elim disjE exE)
    assume "ListSortFunction vsize args info result_p mem = Inl AssertionFailure"
    then show ?thesis using assms(4) by simp
  next
    fix g
    assume "ListSortFunction vsize args info result_p mem =
        Inr (mem\<lparr>validity_masks := masks ?s\<rparr>, info\<lparr>global_sort_state := Some g\<rparr>, dc_data args ! 0)"
    then have "mem' = mem\<lparr>validity_masks := masks ?s\<rparr>" "res = dc_data args ! 0"
      using assms(4) by simp_all
    then show ?thesis by simp
  next
    fix g sel_sorted n
    assume "ListSortFunction vsize args info result_p mem =
        Inr (mem\<lparr>validity_masks := masks ?s,
                 child_vectors := (child_vectors mem)
                   [vec_auxiliary (dc_data args ! 0) :=
                      Normalify (Slice (child_vectors mem ! vec_auxiliary (dc_data args ! 0))
                        sel_sorted) n]\<rparr>,
             info\<lparr>global_sort_state := Some g\<rparr>, dc_data args ! 0)"
    then have "mem' = mem\<lparr>validity_masks := masks ?s,
                 child_vectors := (child_vectors mem)
                   [vec_auxiliary (dc_data args ! 0) :=
                      Normalify (Slice (child_vectors mem ! vec_auxiliary (dc_data args ! 0))
                        sel_sorted) n]\<rparr>" "res = dc_data args ! 0"
      using assms(4) by simp_all
    then show ?thesis by auto
  qed
  then have m: "validity_masks mem' = masks ?s" and r: "res = dc_data args ! 0"
    and l: "list_buffers mem' = list_buffers mem" and c: ?c
    by simp_all
  have "RowIsValid (validity_masks mem') (vec_validity res) x =
          RowIsValid (validity_masks mem) (vec_validity (dc_data args ! 0)) x"
    if "separate_masks (validity_masks mem) (dc_data args ! 0) (result_p\<lparr>vector_type := FLAT_VECTOR\<rparr>)"
    for x
    unfolding m r by (rule key_builder_RowIsValid [OF that])
  then show ?thesis
    using r l c by blast
qed

text \<open>
  The theorem on the specification's example: the result is the input's handle, row 0 is
  valid and row 1 is null as in the input.
\<close>

theorem result_references_input_witness:
  "\<exists>mem' info'. ListSortFunction 4 ex_args
       (ListSortBindData_ctor ASCENDING NULLS_LAST (LIST INTEGER) INTEGER) ex_result ex_mem =
         Inr (mem', info', ex_lists)
     \<and> list_buffers mem' = list_buffers ex_mem
     \<and> RowIsValid (validity_masks mem') (vec_validity ex_lists) 0
     \<and> \<not> RowIsValid (validity_masks mem') (vec_validity ex_lists) 1"
proof -
  let ?info = "ListSortBindData_ctor ASCENDING NULLS_LAST (LIST INTEGER) INTEGER :: int ListSortBindData"
  obtain mem' info' res where f: "ListSortFunction 4 ex_args ?info ex_result ex_mem = Inr (mem', info', res)"
    using ListSortFunction_outcome [of ex_args 4 ?info ex_result ex_mem] ex_ListSortFunction
    by (auto simp add: ex_args_def ColumnCount_def ex_lists_def)
  have a: "1 \<le> ColumnCount ex_args" "ColumnCount ex_args \<le> 3" "vec_type (dc_data ex_args ! 0) \<noteq> SQLNULL"
    "dc_data ex_args ! 0 = ex_lists"
    by (simp_all add: ex_args_def ColumnCount_def ex_lists_def)
  have sep: "separate_masks (validity_masks ex_mem) ex_lists (ex_result\<lparr>vector_type := FLAT_VECTOR\<rparr>)"
    by (simp add: separate_masks_def ex_mem_def ex_lists_def ex_result_def)
  have v: "RowIsValid (validity_masks ex_mem) (vec_validity ex_lists) 0"
    "\<not> RowIsValid (validity_masks ex_mem) (vec_validity ex_lists) 1"
    by (simp_all add: RowIsValid_def ex_mem_def ex_lists_def)
  show ?thesis
    using result_references_input [OF a(1-3) f] f sep v unfolding a(4) by auto
qed

section \<open>Null rows, empty rows and degenerate batches\<close>

lemma row_step_null:
  assumes "\<not> RowIsValid (masks s) lv (lsel i)"
  shows "row_step vsize lsel entries lv child i s =
     s\<lparr>masks := fst (SetInvalid (masks s) (vec_validity (result s)) i),
       result := (result s)\<lparr>vec_validity := snd (SetInvalid (masks s) (vec_validity (result s)) i)\<rparr>\<rparr>"
  using assms by (simp add: row_step_def Let_def split: prod.splits)

lemma row_step_empty:
  assumes "RowIsValid (masks s) lv (lsel i)" "length_e (entries ! lsel i) = 0"
  shows "row_step vsize lsel entries lv child i s = s"
  using assms by (simp add: row_step_def Let_def)

lemma result_fixed:
  assumes "1 \<le> ColumnCount args" "ColumnCount args \<le> 3"
      and "vec_type (dc_data args ! 0) \<noteq> SQLNULL"
      and "ListSortFunction vsize args info result_p mem = Inr (mem', info', res)"
  shows "res = dc_data args ! 0"
  using ListSortFunction_outcome [OF assms(1-3), of vsize info result_p mem] assms(4)
  by (elim disjE exE) auto

lemma gap_key_builder:
  "local_sort_state (key_builder 4 4 ex_lists (ex_result\<lparr>vector_type := FLAT_VECTOR\<rparr>) gap_mem) =
     [(0, Some 3, 0), (0, Some 1, 1), (0, Some 2, 2), (2, Some 5, 3), (2, None, 4), (2, Some 1, 5)]"
  "data_to_sort (key_builder 4 4 ex_lists (ex_result\<lparr>vector_type := FLAT_VECTOR\<rparr>) gap_mem)"
  "incr_payload_count (key_builder 4 4 ex_lists (ex_result\<lparr>vector_type := FLAT_VECTOR\<rparr>) gap_mem) = 6"
  by (simp_all add: exec_simps ex_lists_def ex_result_def gap_mem_def upt_rec)

lemma gap_returns:
  "\<exists>mem' info'. ListSortFunction 4 ex_args info ex_result gap_mem = Inr (mem', info', ex_lists)"
proof -
  have a: "dc_size ex_args = 4" "dc_data ex_args ! 0 = ex_lists"
    by (simp_all add: ex_args_def)
  have c: "(0::nat) < 4" "1 \<le> ColumnCount ex_args" "ColumnCount ex_args \<le> 3"
    "vec_type (dc_data ex_args ! 0) \<noteq> SQLNULL"
    by (simp_all add: ex_args_def ColumnCount_def ex_lists_def)
  have k: "data_to_sort (key_builder 4 (dc_size ex_args) (dc_data ex_args ! 0)
                 (ex_result\<lparr>vector_type := FLAT_VECTOR\<rparr>) gap_mem)"
    "length (local_sort_state (key_builder 4 (dc_size ex_args) (dc_data ex_args ! 0)
                 (ex_result\<lparr>vector_type := FLAT_VECTOR\<rparr>) gap_mem)) =
           unat (incr_payload_count (key_builder 4 (dc_size ex_args) (dc_data ex_args ! 0)
                 (ex_result\<lparr>vector_type := FLAT_VECTOR\<rparr>) gap_mem))"
    unfolding a by (simp_all add: gap_key_builder)
  show ?thesis
    using ListSortFunction_returns [OF c k, of info] unfolding a .
qed

text \<open>
  Claim C4. A null row: the row's step marks row \<open>i\<close> of the result null and changes
  nothing else (nothing is written to the buffers, nothing is sunk, the counters stay).
  A valid row of length zero: the row's step changes nothing at all. In the vector the
  function returns, a row that was null in the input is null, and a row that was a valid
  empty list is a valid list of length zero. The key columns of the triples the invocation
  sinks are, row by row in the batch's order, those of the elements of the valid rows of
  positive length: a null row contributes none, whatever its list entry spans, and an empty
  row contributes none. The run the engine holds when the function returns consists of
  exactly the sunk triples, so no data of a null or empty row enters the sort engine.
\<close>

theorem null_and_empty_rows:
  fixes mem :: "('a::linorder) memory"
  assumes "1 \<le> ColumnCount args" "ColumnCount args \<le> 3"
      and "vec_type (dc_data args ! 0) \<noteq> SQLNULL"
      and "separate_masks (validity_masks mem) (dc_data args ! 0) (result_p\<lparr>vector_type := FLAT_VECTOR\<rparr>)"
      and "ListSortFunction vsize args info result_p mem = Inr (mem', info', res)"
  shows "(\<forall>(s :: 'a locals) lsel entries lv child i.
            \<not> RowIsValid (masks s) lv (lsel i) \<and> allocated_mask (masks s) (result s) \<longrightarrow>
            (let s' = row_step vsize lsel entries lv child i s
             in \<not> RowIsValid (masks s') (vec_validity (result s')) i
              \<and> local_sort_state s' = local_sort_state s
              \<and> sel s' = sel s \<and> lists_indices_data s' = lists_indices_data s
              \<and> payload_vector_data s' = payload_vector_data s
              \<and> offset_lists_indices s' = offset_lists_indices s
              \<and> incr_payload_count s' = incr_payload_count s
              \<and> data_to_sort s' = data_to_sort s))
       \<and> (\<forall>(s :: 'a locals) lsel entries lv child i.
            RowIsValid (masks s) lv (lsel i) \<and> length_e (entries ! lsel i) = 0 \<longrightarrow>
            row_step vsize lsel entries lv child i s = s)
       \<and> (\<forall>i. \<not> RowIsValid (validity_masks mem) (vec_validity (dc_data args ! 0))
                   (Orrify_sel (dc_data args ! 0) i) \<longrightarrow>
              \<not> RowIsValid (validity_masks mem') (vec_validity res) (Orrify_sel res i))
       \<and> (\<forall>i. RowIsValid (validity_masks mem) (vec_validity (dc_data args ! 0))
                   (Orrify_sel (dc_data args ! 0) i) \<and>
                length_e ((list_buffers mem ! vec_data (dc_data args ! 0)) !
                   Orrify_sel (dc_data args ! 0) i) = 0 \<longrightarrow>
              RowIsValid (validity_masks mem') (vec_validity res) (Orrify_sel res i) \<and>
              length_e ((list_buffers mem' ! vec_data res) ! Orrify_sel res i) = 0)
       \<and> map (\<lambda>(g, e, p). (g, e))
           (local_sort_state (key_builder vsize (dc_size args) (dc_data args ! 0)
              (result_p\<lparr>vector_type := FLAT_VECTOR\<rparr>) mem)) =
         concat (map
           (\<lambda>i. if \<not> RowIsValid (validity_masks mem) (vec_validity (dc_data args ! 0))
                       (Orrify_sel (dc_data args ! 0) i) then []
                 else if length_e ((list_buffers mem ! vec_data (dc_data args ! 0)) !
                           Orrify_sel (dc_data args ! 0) i) = 0 then []
                 else map (\<lambda>c. (of_nat i,
                        GetValue (child_vectors mem ! vec_auxiliary (dc_data args ! 0))
                          (cv_sel (child_vectors mem ! vec_auxiliary (dc_data args ! 0))
                             (offset ((list_buffers mem ! vec_data (dc_data args ! 0)) !
                                Orrify_sel (dc_data args ! 0) i) + c))))
                      [0..<length_e ((list_buffers mem ! vec_data (dc_data args ! 0)) !
                             Orrify_sel (dc_data args ! 0) i)])
           [0..<dc_size args])
       \<and> (\<exists>g. global_sort_state info' = Some g
            \<and> length (concat (sorted_blocks g)) =
                length (local_sort_state (key_builder vsize (dc_size args) (dc_data args ! 0)
                   (result_p\<lparr>vector_type := FLAT_VECTOR\<rparr>) mem))
            \<and> set (concat (sorted_blocks g)) =
                set (local_sort_state (key_builder vsize (dc_size args) (dc_data args ! 0)
                   (result_p\<lparr>vector_type := FLAT_VECTOR\<rparr>) mem)))"
    (is "?A \<and> ?B \<and> ?C \<and> ?D \<and> ?E \<and> ?F")
proof -
  let ?s = "key_builder vsize (dc_size args) (dc_data args ! 0)
              (result_p\<lparr>vector_type := FLAT_VECTOR\<rparr>) mem"
  have a: "\<not> RowIsValid (masks s') (vec_validity (result s')) i
              \<and> local_sort_state s' = local_sort_state s
              \<and> sel s' = sel s \<and> lists_indices_data s' = lists_indices_data s
              \<and> payload_vector_data s' = payload_vector_data s
              \<and> offset_lists_indices s' = offset_lists_indices s
              \<and> incr_payload_count s' = incr_payload_count s
              \<and> data_to_sort s' = data_to_sort s"
    if "\<not> RowIsValid (masks s) lv (lsel i)" "allocated_mask (masks s) (result s)"
      and "s' = row_step vsize lsel entries lv child i s"
    for s s' :: "'a locals" and lsel entries lv child i
    unfolding that(3) row_step_null [where s = s and lv = lv and lsel = lsel and i = i, OF that(1)]
    using SetInvalid_marks [where p = "vec_validity (result s)" and ms = "masks s" and i = i] that(2)
    by (simp add: allocated_mask_def)
  have b: "row_step vsize lsel entries lv child i s = s"
    if "RowIsValid (masks s) lv (lsel i)" "length_e (entries ! lsel i) = 0"
    for s :: "'a locals" and lsel entries lv child i
    using that by (simp add: row_step_def Let_def)
  have "validity_masks mem' = masks ?s \<and> res = dc_data args ! 0 \<and>
        list_buffers mem' = list_buffers mem"
    using ListSortFunction_outcome [OF assms(1-3), of vsize info result_p mem] assms(5)
    by (elim disjE exE) auto
  then have m: "validity_masks mem' = masks ?s" and r: "res = dc_data args ! 0"
    and l: "list_buffers mem' = list_buffers mem"
    by simp_all
  have v: "RowIsValid (validity_masks mem') (vec_validity (dc_data args ! 0)) x =
          RowIsValid (validity_masks mem) (vec_validity (dc_data args ! 0)) x" for x
    unfolding m by (rule key_builder_RowIsValid [OF assms(4)])
  have A: ?A
    unfolding Let_def using a [OF _ _ refl] by blast
  have B: ?B
    using b by blast
  have C: ?C
    unfolding r by (simp add: v)
  have D: ?D
    unfolding r by (simp add: v l)
  have E: ?E
    unfolding key_builder_keys(1) [OF assms(4)] expected_keys_def
    by (rule arg_cong [where f = concat], rule map_cong)
       (simp_all add: GetValue_def)
  have F: ?F
    by (rule engine_holds_sunk [OF assms(1-3,5)])
  show ?thesis
    using A B C D E F by blast
qed

text \<open>
  The theorem on the batch \<open>[[3,1,2], [], [5,NULL,1], NULL]\<close> whose null row 3 has a list
  entry spanning the two elements 9 and 7 of the child buffer: six triples are sunk, of the
  rows 0 and 2, none with the elements 9 or 7, and the engine holds these six.
\<close>

theorem null_and_empty_rows_witness:
  "\<not> RowIsValid (validity_masks gap_mem) (vec_validity ex_lists) (Orrify_sel ex_lists 3)
   \<and> length_e ((list_buffers gap_mem ! vec_data ex_lists) ! Orrify_sel ex_lists 3) = 2
   \<and> RowIsValid (validity_masks gap_mem) (vec_validity ex_lists) (Orrify_sel ex_lists 1)
   \<and> length_e ((list_buffers gap_mem ! vec_data ex_lists) ! Orrify_sel ex_lists 1) = 0
   \<and> (\<exists>mem' info' g. ListSortFunction 4 ex_args
          (ListSortBindData_ctor ASCENDING NULLS_LAST (LIST INTEGER) INTEGER) ex_result gap_mem =
            Inr (mem', info', ex_lists)
        \<and> \<not> RowIsValid (validity_masks mem') (vec_validity ex_lists) (Orrify_sel ex_lists 3)
        \<and> RowIsValid (validity_masks mem') (vec_validity ex_lists) (Orrify_sel ex_lists 1)
        \<and> length_e ((list_buffers mem' ! vec_data ex_lists) ! Orrify_sel ex_lists 1) = 0
        \<and> global_sort_state info' = Some g
        \<and> length (concat (sorted_blocks g)) = 6
        \<and> set (concat (sorted_blocks g)) =
            {(0, Some 3, 0), (0, Some 1, 1), (0, Some 2, 2), (2, Some 5, 3), (2, None, 4), (2, Some 1, 5)})
   \<and> map (\<lambda>(g, e, p). (g, e))
        (local_sort_state (key_builder 4 4 ex_lists (ex_result\<lparr>vector_type := FLAT_VECTOR\<rparr>) gap_mem)) =
      [(0, Some 3), (0, Some 1), (0, Some 2), (2, Some 5), (2, None), (2, Some 1)]
   \<and> \<not> RowIsValid (masks gap_locals) (vec_validity ex_lists) 3
   \<and> \<not> RowIsValid
         (masks (row_step 4 (\<lambda>i. i) (list_buffers gap_mem ! 0) (vec_validity ex_lists)
                  (child_vectors gap_mem ! 0) 3 gap_locals))
         (vec_validity (result (row_step 4 (\<lambda>i. i) (list_buffers gap_mem ! 0) (vec_validity ex_lists)
                  (child_vectors gap_mem ! 0) 3 gap_locals))) 3
   \<and> local_sort_state (row_step 4 (\<lambda>i. i) (list_buffers gap_mem ! 0) (vec_validity ex_lists)
                  (child_vectors gap_mem ! 0) 3 gap_locals) = []
   \<and> row_step 4 (\<lambda>i. i) (list_buffers gap_mem ! 0) (vec_validity ex_lists)
                  (child_vectors gap_mem ! 0) 1 gap_locals = gap_locals"
proof -
  let ?info = "ListSortBindData_ctor ASCENDING NULLS_LAST (LIST INTEGER) INTEGER :: int ListSortBindData"
  obtain mem' info' where f: "ListSortFunction 4 ex_args ?info ex_result gap_mem = Inr (mem', info', ex_lists)"
    using gap_returns [of ?info] by blast
  have a: "1 \<le> ColumnCount ex_args" "ColumnCount ex_args \<le> 3" "vec_type (dc_data ex_args ! 0) \<noteq> SQLNULL"
    by (simp_all add: ex_args_def ColumnCount_def ex_lists_def)
  have l: "dc_data ex_args ! 0 = ex_lists" "dc_size ex_args = 4"
    by (simp_all add: ex_args_def)
  have sep: "separate_masks (validity_masks gap_mem) (dc_data ex_args ! 0)
               (ex_result\<lparr>vector_type := FLAT_VECTOR\<rparr>)"
    by (simp add: separate_masks_def gap_mem_def ex_lists_def ex_result_def ex_args_def)
  have v: "\<not> RowIsValid (validity_masks gap_mem) (vec_validity ex_lists) (Orrify_sel ex_lists 3)"
    "length_e ((list_buffers gap_mem ! vec_data ex_lists) ! Orrify_sel ex_lists 3) = 2"
    "RowIsValid (validity_masks gap_mem) (vec_validity ex_lists) (Orrify_sel ex_lists 1)"
    "length_e ((list_buffers gap_mem ! vec_data ex_lists) ! Orrify_sel ex_lists 1) = 0"
    by (simp_all add: RowIsValid_def Orrify_sel_def gap_mem_def ex_lists_def)
  have s: "\<not> RowIsValid (masks gap_locals) (vec_validity ex_lists) 3"
    "allocated_mask (masks gap_locals) (result gap_locals)"
    "RowIsValid (masks gap_locals) (vec_validity ex_lists) 1"
    "length_e ((list_buffers gap_mem ! 0) ! 1) = 0"
    "local_sort_state gap_locals = []"
    by (simp_all add: RowIsValid_def allocated_mask_def gap_locals_def gap_mem_def ex_lists_def
        ex_result_def)
  note t = null_and_empty_rows [OF a sep f, unfolded l Let_def]
  have t1: "\<not> RowIsValid (validity_masks mem') (vec_validity ex_lists) (Orrify_sel ex_lists 3)"
    using t v(1) by blast
  have t2: "RowIsValid (validity_masks mem') (vec_validity ex_lists) (Orrify_sel ex_lists 1)
      \<and> length_e ((list_buffers mem' ! vec_data ex_lists) ! Orrify_sel ex_lists 1) = 0"
    using t v(3,4) by blast
  have t3: "\<not> RowIsValid
         (masks (row_step 4 (\<lambda>i. i) (list_buffers gap_mem ! 0) (vec_validity ex_lists)
                  (child_vectors gap_mem ! 0) 3 gap_locals))
         (vec_validity (result (row_step 4 (\<lambda>i. i) (list_buffers gap_mem ! 0) (vec_validity ex_lists)
                  (child_vectors gap_mem ! 0) 3 gap_locals))) 3
      \<and> local_sort_state (row_step 4 (\<lambda>i. i) (list_buffers gap_mem ! 0) (vec_validity ex_lists)
                  (child_vectors gap_mem ! 0) 3 gap_locals) = local_sort_state gap_locals"
    using t [THEN conjunct1, rule_format, of gap_locals "vec_validity ex_lists" "\<lambda>i. i" 3] s(1,2)
    by blast
  have t4: "row_step 4 (\<lambda>i. i) (list_buffers gap_mem ! 0) (vec_validity ex_lists)
                  (child_vectors gap_mem ! 0) 1 gap_locals = gap_locals"
    using t [THEN conjunct2, THEN conjunct1, rule_format, of gap_locals "vec_validity ex_lists"
        "\<lambda>i. i" 1 "list_buffers gap_mem ! 0"] s(3,4)
    by blast
  have rows: "concat (map
           (\<lambda>i. if \<not> RowIsValid (validity_masks gap_mem) (vec_validity ex_lists)
                       (Orrify_sel ex_lists i) then []
                 else if length_e ((list_buffers gap_mem ! vec_data ex_lists) !
                           Orrify_sel ex_lists i) = 0 then []
                 else map (\<lambda>c. (of_nat i,
                        GetValue (child_vectors gap_mem ! vec_auxiliary ex_lists)
                          (cv_sel (child_vectors gap_mem ! vec_auxiliary ex_lists)
                             (offset ((list_buffers gap_mem ! vec_data ex_lists) !
                                Orrify_sel ex_lists i) + c))))
                      [0..<length_e ((list_buffers gap_mem ! vec_data ex_lists) !
                             Orrify_sel ex_lists i)])
           [0..<4]) =
        [(0 :: 16 word, Some 3), (0, Some 1), (0, Some 2), (2, Some 5), (2, None), (2, Some 1)]"
    by (simp add: gap_mem_def ex_lists_def RowIsValid_def Orrify_sel_def GetValue_def upt_rec)
  have t5: "map (\<lambda>(g, e, p). (g, e))
        (local_sort_state (key_builder 4 4 ex_lists (ex_result\<lparr>vector_type := FLAT_VECTOR\<rparr>) gap_mem)) =
      [(0, Some 3), (0, Some 1), (0, Some 2), (2, Some 5), (2, None), (2, Some 1)]"
    using t [THEN conjunct2, THEN conjunct2, THEN conjunct2, THEN conjunct2, THEN conjunct1]
    unfolding rows .
  obtain g where g: "global_sort_state info' = Some g"
      "length (concat (sorted_blocks g)) = length (local_sort_state (key_builder 4 4 ex_lists
           (ex_result\<lparr>vector_type := FLAT_VECTOR\<rparr>) gap_mem))"
      "set (concat (sorted_blocks g)) = set (local_sort_state (key_builder 4 4 ex_lists
           (ex_result\<lparr>vector_type := FLAT_VECTOR\<rparr>) gap_mem))"
    using t by blast
  have t6: "length (concat (sorted_blocks g)) = 6"
    "set (concat (sorted_blocks g)) =
            {(0, Some 3, 0), (0, Some 1, 1), (0, Some 2, 2), (2, Some 5, 3), (2, None, 4), (2, Some 1, 5)}"
    using g(2,3) by (simp_all add: gap_key_builder)
  show ?thesis
    using v f t1 t2 g(1) t6 t5 s(1) t3 t4 s(5) by auto
qed

text \<open>
  Claim C5. When every row of the batch is null or empty, zero triples are emitted,
  \<open>data_to_sort\<close> stays false, and the function returns the input's handle over a memory
  in which only validity masks other than the input's may differ: list-entry buffers and
  child vectors are untouched, and the engine's state is the freshly created one, with no
  run (nothing was added, merged or scanned, and nothing was gathered).
\<close>

theorem nothing_to_sort:
  fixes mem :: "('a::linorder) memory"
  assumes "1 \<le> ColumnCount args" "ColumnCount args \<le> 3"
      and "vec_type (dc_data args ! 0) \<noteq> SQLNULL"
      and "separate_masks (validity_masks mem) (dc_data args ! 0) (result_p\<lparr>vector_type := FLAT_VECTOR\<rparr>)"
      and "\<forall>i < dc_size args.
             \<not> RowIsValid (validity_masks mem) (vec_validity (dc_data args ! 0))
                 (Orrify_sel (dc_data args ! 0) i) \<or>
             length_e ((list_buffers mem ! vec_data (dc_data args ! 0)) !
                 Orrify_sel (dc_data args ! 0) i) = 0"
  shows "local_sort_state (key_builder vsize (dc_size args) (dc_data args ! 0)
             (result_p\<lparr>vector_type := FLAT_VECTOR\<rparr>) mem) = []
       \<and> \<not> data_to_sort (key_builder vsize (dc_size args) (dc_data args ! 0)
             (result_p\<lparr>vector_type := FLAT_VECTOR\<rparr>) mem)
       \<and> (\<exists>ms. ListSortFunction vsize args info result_p mem =
             Inr (mem\<lparr>validity_masks := ms\<rparr>,
                  info\<lparr>global_sort_state := Some \<lparr>gs_orders = orders info,
                     gs_payload_layout = payload_layout info, sorted_blocks = []\<rparr>\<rparr>,
                  dc_data args ! 0)
           \<and> (\<forall>x. RowIsValid ms (vec_validity (dc_data args ! 0)) x =
                  RowIsValid (validity_masks mem) (vec_validity (dc_data args ! 0)) x))"
proof -
  let ?s = "key_builder vsize (dc_size args) (dc_data args ! 0)
              (result_p\<lparr>vector_type := FLAT_VECTOR\<rparr>) mem"
  have "sum_list (map (\<lambda>i. if RowIsValid (validity_masks mem) (vec_validity (dc_data args ! 0))
                              (Orrify_sel (dc_data args ! 0) i)
                          then length_e ((list_buffers mem ! vec_data (dc_data args ! 0)) !
                                 Orrify_sel (dc_data args ! 0) i)
                          else 0) [0..<dc_size args]) = 0"
    using assms(5) by (auto simp add: sum_list_eq_0_iff)
  then have "length (local_sort_state ?s) = 0"
    by (simp only: key_builder_length [OF assms(4)])
  then have empty: "local_sort_state ?s = []"
    by simp
  then have dts: "\<not> data_to_sort ?s"
    by (simp add: key_builder_data_to_sort)
  have f: "ListSortFunction vsize args info result_p mem =
             Inr (mem\<lparr>validity_masks := masks ?s\<rparr>,
                  info\<lparr>global_sort_state := Some \<lparr>gs_orders = orders info,
                     gs_payload_layout = payload_layout info, sorted_blocks = []\<rparr>\<rparr>,
                  dc_data args ! 0)"
    using assms(1-3) dts by (simp add: ListSortFunction_def Let_def)
  have v: "RowIsValid (masks ?s) (vec_validity (dc_data args ! 0)) x =
           RowIsValid (validity_masks mem) (vec_validity (dc_data args ! 0)) x" for x
    by (rule key_builder_RowIsValid [OF assms(4)])
  show ?thesis
    using empty dts f v by blast
qed

text \<open>
  The theorem on a batch of one null and one empty row.
\<close>

theorem nothing_to_sort_witness:
  "dc_size idle_args = 2
   \<and> \<not> RowIsValid (validity_masks ex_mem) (vec_validity idle_lists) (Orrify_sel idle_lists 0)
   \<and> RowIsValid (validity_masks ex_mem) (vec_validity idle_lists) (Orrify_sel idle_lists 1)
   \<and> length_e ((list_buffers ex_mem ! vec_data idle_lists) ! Orrify_sel idle_lists 1) = 0
   \<and> (\<exists>ms. ListSortFunction 4 idle_args
          (ListSortBindData_ctor ASCENDING NULLS_LAST (LIST INTEGER) INTEGER) ex_result ex_mem =
        Inr (ex_mem\<lparr>validity_masks := ms\<rparr>,
             (ListSortBindData_ctor ASCENDING NULLS_LAST (LIST INTEGER) INTEGER)
               \<lparr>global_sort_state := Some \<lparr>gs_orders = orders (ListSortBindData_ctor ASCENDING
                    NULLS_LAST (LIST INTEGER) INTEGER :: int ListSortBindData),
                  gs_payload_layout = [UINTEGER], sorted_blocks = []\<rparr>\<rparr>,
             idle_lists))"
proof -
  let ?info = "ListSortBindData_ctor ASCENDING NULLS_LAST (LIST INTEGER) INTEGER :: int ListSortBindData"
  have a: "1 \<le> ColumnCount idle_args" "ColumnCount idle_args \<le> 3"
    "vec_type (dc_data idle_args ! 0) \<noteq> SQLNULL"
    by (simp_all add: idle_args_def ColumnCount_def idle_lists_def)
  have sep: "separate_masks (validity_masks ex_mem) (dc_data idle_args ! 0)
               (ex_result\<lparr>vector_type := FLAT_VECTOR\<rparr>)"
    by (simp add: separate_masks_def ex_mem_def idle_lists_def ex_result_def idle_args_def)
  have rows: "\<forall>i < dc_size idle_args.
       \<not> RowIsValid (validity_masks ex_mem) (vec_validity (dc_data idle_args ! 0))
           (Orrify_sel (dc_data idle_args ! 0) i) \<or>
       length_e ((list_buffers ex_mem ! vec_data (dc_data idle_args ! 0)) !
           Orrify_sel (dc_data idle_args ! 0) i) = 0"
    by (simp add: idle_args_def idle_lists_def ex_mem_def RowIsValid_def Orrify_sel_def
        less_Suc_eq numeral_2_eq_2)
  have p: "payload_layout ?info = [UINTEGER]" "dc_data idle_args ! 0 = idle_lists"
    by (simp_all add: ListSortBindData_ctor_def idle_args_def)
  have v: "dc_size idle_args = 2"
    "\<not> RowIsValid (validity_masks ex_mem) (vec_validity idle_lists) (Orrify_sel idle_lists 0)"
    "RowIsValid (validity_masks ex_mem) (vec_validity idle_lists) (Orrify_sel idle_lists 1)"
    "length_e ((list_buffers ex_mem ! vec_data idle_lists) ! Orrify_sel idle_lists 1) = 0"
    by (simp_all add: idle_args_def idle_lists_def ex_mem_def RowIsValid_def Orrify_sel_def)
  show ?thesis
    using nothing_to_sort [OF a sep rows, of 4 ?info] v unfolding p by blast
qed

text \<open>
  For every input vector of the untyped NULL type and every batch size, the function returns
  at once: the result is a flat vector whose row 0 is marked null, the bind data is returned
  as it was (no sort state is created, nothing is sunk, sorted or scanned), and only the
  validity masks of the memory change.
\<close>

lemma sqlnull_short_circuit:
  assumes "1 \<le> ColumnCount args" "ColumnCount args \<le> 3"
      and "vec_type (dc_data args ! 0) = SQLNULL"
      and "allocated_mask (validity_masks mem) result_p"
  shows "\<exists>m p. ListSortFunction vsize args info result_p mem =
           Inr (mem\<lparr>validity_masks := m\<rparr>, info,
                result_p\<lparr>vector_type := FLAT_VECTOR, vec_validity := p\<rparr>)
         \<and> \<not> RowIsValid m p 0"
proof -
  let ?r = "SetInvalid (validity_masks mem) (vec_validity result_p) 0"
  have "ListSortFunction vsize args info result_p mem =
           Inr (mem\<lparr>validity_masks := fst ?r\<rparr>, info,
                result_p\<lparr>vector_type := FLAT_VECTOR, vec_validity := snd ?r\<rparr>)"
    using assms(1-3) by (simp add: ListSortFunction_def Let_def split: prod.splits)
  moreover have "\<not> RowIsValid (fst ?r) (snd ?r) 0"
    using assms(4) by (intro SetInvalid_marks) (simp add: allocated_mask_def)
  ultimately show ?thesis by blast
qed

text \<open>
  Claim C6 against the code, evaluated on a batch of two rows of the untyped NULL type with
  a fresh result vector: the function returns at once and leaves the bind data as it was, so
  the sort engine is not invoked, but of the flat result only row 0 is marked null; row 1
  stays valid, so the result is not null as a whole.
\<close>

theorem sqlnull_marks_row_0_only:
  "ListSortFunction 1024 null_args
     (ListSortBindData_ctor ASCENDING NULLS_LAST (LIST INTEGER) INTEGER) ex_result null_mem =
   Inr (null_mem\<lparr>validity_masks := [(\<lambda>_. True)(0 := False)]\<rparr>,
        ListSortBindData_ctor ASCENDING NULLS_LAST (LIST INTEGER) INTEGER,
        ex_result\<lparr>vector_type := FLAT_VECTOR, vec_validity := Some 0\<rparr>)
   \<and> dc_size null_args = 2
   \<and> RowIsValid [(\<lambda>_. True)(0 := False)] (Some 0) 1"
  by (simp add: ListSortFunction_def Let_def null_args_def null_lists_def ColumnCount_def
      SetInvalid_def ex_result_def null_mem_def RowIsValid_def)

end
